theory Spec2Isabelle
  imports Main "HOL-Library.Sublist"
begin

section \<open>Strings and numbers as the host language renders them\<close>

text \<open>
  The extension is TypeScript. Strings are modelled as \<open>string\<close>; a template literal
  \<^verbatim>\<open>`...${code}...`\<close> is the concatenation of its pieces, with a number rendered in
  decimal. Process exit codes are integers (or \<^verbatim>\<open>null\<close>, see \<open>show_code\<close>).
\<close>

abbreviation NL :: char where
  "NL \<equiv> CHR 0x0A"

definition digit :: "nat \<Rightarrow> char" where
  "digit d = ''0123456789'' ! d"

function show_nat :: "nat \<Rightarrow> string" where
  "show_nat n = (if n < 10 then [digit n] else show_nat (n div 10) @ [digit (n mod 10)])"
  by pat_completeness auto
termination
  by (relation "measure id") auto

declare show_nat.simps [simp del]

definition show_int :: "int \<Rightarrow> string" where
  "show_int i = (if i < 0 then CHR ''-'' # show_nat (nat (- i)) else show_nat (nat i))"

text \<open>
  The \<^verbatim>\<open>close\<close> event of a child process delivers \<^verbatim>\<open>number | null\<close>: \<open>None\<close> is \<^verbatim>\<open>null\<close>
  (the process was ended by a signal), which a template literal renders as \<^verbatim>\<open>null\<close>.
\<close>

type_synonym exit_code = "int option"

definition show_code :: "exit_code \<Rightarrow> string" where
  "show_code code = (case code of None \<Rightarrow> ''null'' | Some c \<Rightarrow> show_int c)"

section \<open>Effects of the extension on its host\<close>

text \<open>
  Every call the code makes on the editor API or on \<^verbatim>\<open>child_process\<close> is recorded, in
  program order, as one \<open>effect\<close>. \<^verbatim>\<open>progress.report({ message })\<close> is made at three kinds of
  call site; the constructor of \<open>report\<close> records which: the provisioner's status lines
  (\<open>Status\<close>), the structured progress line \<^verbatim>\<open>`Phase ${log.phase}: ${log.message}`\<close>
  (\<open>Phase\<close>), and the last-line fallback of the \<^verbatim>\<open>catch\<close> block (\<open>Raw\<close>).
\<close>

datatype report = Status string | Phase string | Raw string

text \<open>
  The options of \<^verbatim>\<open>spawn\<close> that the code sets; \<open>env = None\<close> when the call gives none (the
  child then inherits the environment of the extension host).
\<close>

record spawn_options =
  env :: "(string \<times> string) list option"
  cwd :: string

datatype effect =
    ChannelClear
  | ChannelShow
  | ChannelAppend string
  | ChannelAppendLine string
  | ProgressReport report
  | ShowInformationMessage string
  | ShowErrorMessage string
  | Spawn string "string list" spawn_options
  | Kill string

text \<open>How the promise returned by \<^verbatim>\<open>runAgent\<close> is settled.\<close>

datatype settlement = Resolved | Rejected string

section \<open>The \<^verbatim>\<open>close\<close> handler of the agent process\<close>

text \<open>
  \<^verbatim>\<open>agentProcess.on('close', (code) => ...)\<close>, lines 218 to 259. The first argument is
  \<^verbatim>\<open>token.isCancellationRequested\<close> at the time the event fires.
\<close>

definition failure_message :: "exit_code \<Rightarrow> string" where
  "failure_message code =
     (if code = Some 2 then
        ''Agent failed during Phase 1 (Discovery & Strategy). Check the output panel for details.''
      else if code = Some 3 then
        ''Agent failed during Phase 2 (Execution & Refactoring). Check the output panel for details.''
      else if code = Some 4 then
        ''Agent failed during Phase 3 (Documentation & Verification). Check the output panel for details.''
      else if code = Some 1 then
        ''Agent encountered a general error. Check the output panel for details.''
      else
        ''Agent process failed with unexpected error code '' @ show_code code
          @ ''. Check the output panel for details.'')"

definition separator :: effect where
  "separator = ChannelAppendLine (NL # ''---------------------------------------------------'')"

definition on_close :: "bool \<Rightarrow> exit_code \<Rightarrow> effect list \<times> settlement" where
  "on_close isCancellationRequested code =
     (if isCancellationRequested then
        ([separator,
          ChannelAppendLine ''>>> AI Agent process was cancelled.'',
          ShowInformationMessage ''AI Agent was cancelled by user.''],
         Resolved)
      else if code = Some 0 then
        ([separator,
          ChannelAppendLine ''>>> AI Agent finished successfully!'',
          ShowInformationMessage ''AI Agent finished successfully!''],
         Resolved)
      else
        ([separator,
          ChannelAppendLine (''>>> AI Agent process exited with error code '' @ show_code code @ ''.''),
          ShowErrorMessage (failure_message code)],
         Rejected (''Agent process exited with code '' @ show_code code)))"

text \<open>What an observer of a trace of effects sees of it.\<close>

fun spawned :: "effect list \<Rightarrow> (string \<times> string list) list" where
  "spawned [] = []"
| "spawned (Spawn cmd args opts # effs) = (cmd, args) # spawned effs"
| "spawned (_ # effs) = spawned effs"

fun reports :: "effect list \<Rightarrow> report list" where
  "reports [] = []"
| "reports (ProgressReport r # effs) = r # reports effs"
| "reports (_ # effs) = reports effs"

fun error_messages :: "effect list \<Rightarrow> string list" where
  "error_messages [] = []"
| "error_messages (ShowErrorMessage msg # effs) = msg # error_messages effs"
| "error_messages (_ # effs) = error_messages effs"

fun is_phase :: "report \<Rightarrow> bool" where
  "is_phase (Phase msg) = True"
| "is_phase _ = False"

section \<open>Text handling of the stream handlers\<close>

text \<open>
  \<^verbatim>\<open>String.prototype.trim\<close> removes white space and line terminators at both ends. A
  character of the model is one 8-bit \<open>char\<close>, so the white space of the model is the
  white space of the host language below code 256: tab, line feed, vertical tab, form
  feed, carriage return, space and no-break space.
\<close>

definition is_space :: "char \<Rightarrow> bool" where
  "is_space c \<longleftrightarrow>
     c \<in> set [CHR 0x09, CHR 0x0A, CHR 0x0B, CHR 0x0C, CHR 0x0D, CHR 0x20, CHR 0xA0]"

definition trim :: "string \<Rightarrow> string" where
  "trim s = rev (dropWhile is_space (rev (dropWhile is_space s)))"

text \<open>\<^verbatim>\<open>s.split('\n')\<close>: never empty; the empty string gives one empty line.\<close>

fun split_nl :: "string \<Rightarrow> string list" where
  "split_nl [] = [[]]"
| "split_nl (c # cs) =
     (if c = NL then [] # split_nl cs
      else (case split_nl cs of [] \<Rightarrow> [[c]] | l # ls \<Rightarrow> (c # l) # ls))"

text \<open>\<^verbatim>\<open>Array.prototype.pop\<close> gives \<^verbatim>\<open>undefined\<close> (\<open>None\<close>) on an empty array.\<close>

definition pop :: "'a list \<Rightarrow> 'a option" where
  "pop xs = (if xs = [] then None else Some (last xs))"

text \<open>\<^verbatim>\<open>Array.prototype.join\<close> on an array of strings.\<close>

fun join_with :: "string \<Rightarrow> string list \<Rightarrow> string" where
  "join_with sep [] = []"
| "join_with sep [x] = x"
| "join_with sep (x # y # ys) = x @ sep @ join_with sep (y # ys)"

text \<open>\<^verbatim>\<open>String.prototype.includes\<close>: the argument occurs as a contiguous piece.\<close>

fun includes_str :: "string \<Rightarrow> string \<Rightarrow> bool" where
  "includes_str [] sub = (sub = [])"
| "includes_str (c # cs) sub = (prefix sub (c # cs) \<or> includes_str cs sub)"

section \<open>Values read from the agent's output\<close>

text \<open>
  The result of \<^verbatim>\<open>JSON.parse\<close>. Numbers are integers here (the phase identifiers of the
  agent are); a member list keeps the members in the order of the text, and a later
  member of the same name overrides an earlier one.
\<close>

datatype json =
    JNull
  | JBool bool
  | JNumber int
  | JString string
  | JArray "json list"
  | JObject "(string \<times> json) list"

datatype js_error = SyntaxError | TypeError

text \<open>
  Reading a property \<^verbatim>\<open>log.name\<close> for a name that no built-in prototype defines (the code
  reads \<^verbatim>\<open>type\<close>, \<^verbatim>\<open>phase\<close> and \<^verbatim>\<open>message\<close>): \<^verbatim>\<open>null\<close> has no properties and the access
  throws; on an object it is the member if there is one; on anything else it is
  \<^verbatim>\<open>undefined\<close> (\<open>None\<close>).
\<close>

definition get_prop :: "json \<Rightarrow> string \<Rightarrow> js_error + json option" where
  "get_prop v name =
     (case v of
        JNull \<Rightarrow> Inl TypeError
      | JObject members \<Rightarrow> Inr (map_of (rev members) name)
      | _ \<Rightarrow> Inr None)"

text \<open>
  The conversion to a string that a template literal applies. An array is the
  comma-separated conversion of its elements, with \<^verbatim>\<open>null\<close> elements empty. An object is
  \<^verbatim>\<open>[object Object]\<close>, unless it has a member named \<^verbatim>\<open>toString\<close>: a parsed value is never
  callable, so the conversion finds no usable method and throws.
\<close>

fun to_string :: "json \<Rightarrow> js_error + string"
  and join_elements :: "json list \<Rightarrow> js_error + string"
  and element_string :: "json \<Rightarrow> js_error + string"
where
  "to_string JNull = Inr ''null''"
| "to_string (JBool b) = Inr (if b then ''true'' else ''false'')"
| "to_string (JNumber n) = Inr (show_int n)"
| "to_string (JString s) = Inr s"
| "to_string (JArray xs) = join_elements xs"
| "to_string (JObject members) =
     (if ''toString'' \<in> fst ` set members then Inl TypeError else Inr ''[object Object]'')"
| "join_elements [] = Inr []"
| "join_elements [x] = element_string x"
| "join_elements (x # y # ys) =
     (case element_string x of
        Inl e \<Rightarrow> Inl e
      | Inr s \<Rightarrow> (case join_elements (y # ys) of Inl e \<Rightarrow> Inl e | Inr t \<Rightarrow> Inr (s @ '','' @ t)))"
| "element_string JNull = Inr []"
| "element_string (JBool b) = to_string (JBool b)"
| "element_string (JNumber n) = to_string (JNumber n)"
| "element_string (JString s) = to_string (JString s)"
| "element_string (JArray xs) = to_string (JArray xs)"
| "element_string (JObject members) = to_string (JObject members)"

definition template_string :: "json option \<Rightarrow> js_error + string" where
  "template_string v = (case v of None \<Rightarrow> Inr ''undefined'' | Some j \<Rightarrow> to_string j)"

section \<open>The \<^verbatim>\<open>data\<close> handlers of the agent process\<close>

text \<open>
  The standard-output handler, lines 186 to 210. \<open>parse\<close> stands for \<^verbatim>\<open>JSON.parse\<close>, with
  \<open>None\<close> for the \<^verbatim>\<open>SyntaxError\<close> it throws. \<open>progress_line\<close> is the body of the loop for
  one non-blank line: the effects it makes, and the exception it raises if any.
\<close>

type_synonym parser = "string \<Rightarrow> json option"

definition progress_line :: "parser \<Rightarrow> string \<Rightarrow> effect list \<times> js_error option" where
  "progress_line parse line =
     (case parse line of
        None \<Rightarrow> ([], Some SyntaxError)
      | Some log \<Rightarrow>
          (case get_prop log ''type'' of
             Inl e \<Rightarrow> ([], Some e)
           | Inr kind \<Rightarrow>
               if kind = Some (JString ''progress'') then
                 (case get_prop log ''phase'' of
                    Inl e \<Rightarrow> ([], Some e)
                  | Inr phase \<Rightarrow>
                      (case template_string phase of
                         Inl e \<Rightarrow> ([], Some e)
                       | Inr p \<Rightarrow>
                           (case get_prop log ''message'' of
                              Inl e \<Rightarrow> ([], Some e)
                            | Inr message \<Rightarrow>
                                (case template_string message of
                                   Inl e \<Rightarrow> ([], Some e)
                                 | Inr m \<Rightarrow>
                                     ([ProgressReport (Phase (''Phase '' @ p @ '': '' @ m))],
                                      None)))))
               else ([], None)))"

fun progress_lines :: "parser \<Rightarrow> string list \<Rightarrow> effect list \<times> js_error option" where
  "progress_lines parse [] = ([], None)"
| "progress_lines parse (line # lines) =
     (if trim line \<noteq> [] then
        (case progress_line parse line of
           (effs, Some e) \<Rightarrow> (effs, Some e)
         | (effs, None) \<Rightarrow>
             (case progress_lines parse lines of (effs', r) \<Rightarrow> (effs @ effs', r)))
      else progress_lines parse lines)"

definition last_line_fallback :: "string \<Rightarrow> effect list \<times> js_error option" where
  "last_line_fallback output =
     (case pop (split_nl (trim output)) of
        None \<Rightarrow> ([], None)
      | Some lastLine \<Rightarrow>
          if lastLine \<noteq> [] then ([ProgressReport (Raw lastLine)], None) else ([], None))"

text \<open>
  \<^verbatim>\<open>try { body } catch (e) { handler }\<close> on effect traces: the effects of the body up to
  the exception stay, the handler runs after them, and what leaves the statement is what
  the handler raises.
\<close>

definition try_catch ::
  "effect list \<times> js_error option \<Rightarrow> effect list \<times> js_error option \<Rightarrow> effect list \<times> js_error option"
where
  "try_catch body handler =
     (case body of
        (effs, None) \<Rightarrow> (effs, None)
      | (effs, Some e) \<Rightarrow> (effs @ fst handler, snd handler))"

definition on_stdout :: "parser \<Rightarrow> string \<Rightarrow> effect list \<times> js_error option" where
  "on_stdout parse output =
     (case try_catch (progress_lines parse (split_nl (trim output))) (last_line_fallback output) of
        (effs, r) \<Rightarrow> (ChannelAppend output # effs, r))"

text \<open>
  Kinds of output lines, for a given parser: a line that parses as a record whose
  \<^verbatim>\<open>type\<close> is \<^verbatim>\<open>"progress"\<close>; such a line that is not blank and whose \<^verbatim>\<open>phase\<close> and \<^verbatim>\<open>message\<close>
  are numbers or strings; and a line that parses as a record of any other kind.
\<close>

definition progress_record :: "parser \<Rightarrow> string \<Rightarrow> bool" where
  "progress_record parse line \<longleftrightarrow>
     (case parse line of
        None \<Rightarrow> False
      | Some v \<Rightarrow> get_prop v ''type'' = Inr (Some (JString ''progress'')))"

definition scalar :: "js_error + json option \<Rightarrow> bool" where
  "scalar v \<longleftrightarrow>
     (case v of
        Inr (Some (JNumber n)) \<Rightarrow> True
      | Inr (Some (JString s)) \<Rightarrow> True
      | _ \<Rightarrow> False)"

definition well_formed_progress :: "parser \<Rightarrow> string \<Rightarrow> bool" where
  "well_formed_progress parse line \<longleftrightarrow>
     trim line \<noteq> [] \<and>
     (case parse line of
        None \<Rightarrow> False
      | Some v \<Rightarrow>
          get_prop v ''type'' = Inr (Some (JString ''progress''))
          \<and> scalar (get_prop v ''phase'') \<and> scalar (get_prop v ''message''))"

definition other_record :: "parser \<Rightarrow> string \<Rightarrow> bool" where
  "other_record parse line \<longleftrightarrow>
     (case parse line of
        Some (JObject members) \<Rightarrow> map_of (rev members) ''type'' \<noteq> Some (JString ''progress'')
      | _ \<Rightarrow> False)"

text \<open>
  A line the loop cannot read: \<^verbatim>\<open>JSON.parse\<close> throws on it, or gives \<^verbatim>\<open>null\<close>, whose
  \<^verbatim>\<open>type\<close> cannot be read.
\<close>

definition unreadable :: "parser \<Rightarrow> string \<Rightarrow> bool" where
  "unreadable parse line \<longleftrightarrow> parse line = None \<or> parse line = Some JNull"

text \<open>
  The last non-empty line of a chunk, in the words of the specification and not of the
  code: of the lines between the line feeds of the chunk itself, the last with more
  than white space on it (\<open>None\<close> when there is no such line).
\<close>

definition last_nonempty_line :: "string \<Rightarrow> string option" where
  "last_nonempty_line output = pop (filter (\<lambda>line. trim line \<noteq> []) (split_nl output))"

text \<open>The standard-error handler, lines 213 to 216.\<close>

definition stderr_notice :: string where
  \<open>stderr_notice = ''Agent Error: See the "AI Agent" output channel for details.''\<close>

definition on_stderr :: "string \<Rightarrow> effect list" where
  "on_stderr chunk = [ChannelAppendLine (''[ERROR] '' @ chunk), ShowErrorMessage stderr_notice]"

section \<open>Supervising the agent process\<close>

text \<open>
  What the running agent process and the user do, in the order the event loop delivers
  it: output chunks, the user's cancellation request, and the \<^verbatim>\<open>close\<close> event with the
  exit code. The cancellation token fires its listeners once; \<^verbatim>\<open>isCancellationRequested\<close>
  stays set afterwards.
\<close>

datatype process_event =
    StdoutData string
  | StderrData string
  | CancellationRequested
  | Close exit_code

definition on_cancellation_requested :: "effect list" where
  "on_cancellation_requested =
     [ChannelAppendLine (NL # ''>>> User requested cancellation. Terminating agent...''),
      Kill ''SIGTERM'']"

text \<open>
  The promise of lines 184 to 260 over a finite sequence of events. The result is the
  settlement of the promise, \<open>None\<close> while no \<^verbatim>\<open>close\<close> event has arrived: the promise is
  settled by the \<^verbatim>\<open>close\<close> handler and by nothing else. Of the standard-output handler
  only the effects are kept: it raises nothing (\<open>on_stdout_never_throws\<close> below).
\<close>

fun supervise :: "parser \<Rightarrow> bool \<Rightarrow> process_event list \<Rightarrow> effect list \<times> settlement option" where
  "supervise parse cancelled [] = ([], None)"
| "supervise parse cancelled (StdoutData d # events) =
     (case supervise parse cancelled events of
        (effs, r) \<Rightarrow> (fst (on_stdout parse d) @ effs, r))"
| "supervise parse cancelled (StderrData d # events) =
     (case supervise parse cancelled events of (effs, r) \<Rightarrow> (on_stderr d @ effs, r))"
| "supervise parse cancelled (CancellationRequested # events) =
     (case supervise parse True events of
        (effs, r) \<Rightarrow> ((if cancelled then [] else on_cancellation_requested) @ effs, r))"
| "supervise parse cancelled (Close code # events) =
     (case on_close cancelled code of (effs, s) \<Rightarrow> (effs, Some s))"

text \<open>The standard-error chunks that arrive before the process has closed.\<close>

fun stderr_chunks :: "process_event list \<Rightarrow> string list" where
  "stderr_chunks [] = []"
| "stderr_chunks (StderrData d # events) = d # stderr_chunks events"
| "stderr_chunks (Close code # events) = []"
| "stderr_chunks (_ # events) = stderr_chunks events"

fun is_close :: "process_event \<Rightarrow> bool" where
  "is_close (Close code) = True"
| "is_close _ = False"

fun channel_lines :: "effect list \<Rightarrow> string list" where
  "channel_lines [] = []"
| "channel_lines (ChannelAppendLine l # effs) = l # channel_lines effs"
| "channel_lines (_ # effs) = channel_lines effs"

section \<open>Provisioning the Python environment\<close>

text \<open>
  \<^verbatim>\<open>path.join\<close> puts the platform's separator between its arguments. (It also normalises
  the result; the paths below are built from a normalised extension path and fixed
  segments, which normalisation leaves as they are.)
\<close>

definition path_join :: "bool \<Rightarrow> string list \<Rightarrow> string" where
  "path_join isWindows segments = join_with (if isWindows then [CHR 0x5C] else ''/'') segments"

text \<open>What the code reads from its surroundings.\<close>

record platform =
  extensionPath :: string
  isWindows :: bool
  process_env :: "(string \<times> string) list"

record configuration =
  pythonPath :: "string option"
  ibmApiKey :: "string option"
  ibmUrl :: "string option"
  ibmProjectId :: "string option"

record form_data =
  persona :: string
  painPoints :: string
  useCases :: string
  successMetrics :: string

text \<open>
  How a spawned command ends, as \<^verbatim>\<open>runCommand\<close> can see it: \<open>Closed code\<close> when the child
  process fires its \<^verbatim>\<open>close\<close> event with that exit code, \<open>NoClose\<close> when the event never
  comes. A command that cannot be started fires an \<^verbatim>\<open>error\<close> event instead, for which
  \<^verbatim>\<open>runCommand\<close> has no listener, and a command that hangs fires nothing.
\<close>

datatype command_end = Closed exit_code | NoClose

text \<open>
  The machine outside the extension: \<open>stat w p\<close> holds when \<^verbatim>\<open>fs.stat\<close> finds the path \<open>p\<close>
  in the state \<open>w\<close>, and \<open>exec cmd args w\<close> is how the command ends, with the state it
  leaves.
\<close>

record 'w machine =
  stat :: "'w \<Rightarrow> string \<Rightarrow> bool"
  exec :: "string \<Rightarrow> string list \<Rightarrow> 'w \<Rightarrow> command_end \<times> 'w"

definition agentPath :: "platform \<Rightarrow> string" where
  "agentPath pf = path_join (isWindows pf) [extensionPath pf, ''agent'']"

definition venvPath :: "platform \<Rightarrow> string" where
  "venvPath pf = path_join (isWindows pf) [agentPath pf, ''.venv'']"

definition requirementsPath :: "platform \<Rightarrow> string" where
  "requirementsPath pf = path_join (isWindows pf) [agentPath pf, ''requirements.txt'']"

definition pythonExecutable :: "platform \<Rightarrow> string" where
  "pythonExecutable pf =
     (if isWindows pf then path_join True [venvPath pf, ''Scripts'', ''python.exe'']
      else path_join False [venvPath pf, ''bin'', ''python''])"

definition pipExecutable :: "platform \<Rightarrow> string" where
  "pipExecutable pf =
     (if isWindows pf then path_join True [venvPath pf, ''Scripts'', ''pip.exe'']
      else path_join False [venvPath pf, ''bin'', ''pip''])"

text \<open>
  A setting is \<^verbatim>\<open>string | undefined\<close>. \<open>truthy\<close> keeps the value when it counts as true in
  a condition (\<^verbatim>\<open>!value\<close> is false, \<^verbatim>\<open>value || other\<close> is the value): when it is defined and
  not the empty string.
\<close>

definition truthy :: "string option \<Rightarrow> string option" where
  "truthy v = (case v of None \<Rightarrow> None | Some s \<Rightarrow> if s = [] then None else Some s)"

definition pythonCommand :: "configuration \<Rightarrow> string" where
  "pythonCommand cfg = (case truthy (pythonPath cfg) of None \<Rightarrow> ''python'' | Some p \<Rightarrow> p)"

text \<open>
  \<^verbatim>\<open>runCommand\<close>, lines 83 to 88: the spawn, and the promise, which only the \<^verbatim>\<open>close\<close>
  event settles: resolved on exit code 0, rejected with the message of line 87 on any
  other, and pending for ever (\<open>None\<close>) when the event never comes.
\<close>

definition command_failed :: "exit_code \<Rightarrow> string \<Rightarrow> string list \<Rightarrow> string" where
  "command_failed code cmd args =
     ''Command failed with code '' @ show_code code @ '': '' @ cmd @ '' '' @ join_with '' '' args"

definition runCommand ::
  "'w machine \<Rightarrow> platform \<Rightarrow> string \<Rightarrow> string list \<Rightarrow> 'w
     \<Rightarrow> effect list \<times> 'w \<times> settlement option"
where
  "runCommand m pf cmd args w =
     (case exec m cmd args w of
        (ending, w') \<Rightarrow>
          ([Spawn cmd args \<lparr>env = None, cwd = agentPath pf\<rparr>], w',
           case ending of
             NoClose \<Rightarrow> None
           | Closed code \<Rightarrow>
               Some (if code = Some 0 then Resolved
                     else Rejected (command_failed code cmd args))))"

definition venv_args :: "string list" where
  "venv_args = [''-m'', ''venv'', ''.venv'']"

definition pip_args :: "platform \<Rightarrow> string list" where
  "pip_args pf = [''install'', ''-r'', requirementsPath pf]"

text \<open>The \<^verbatim>\<open>catch\<close> block of lines 104 to 120: the message shown for a failed command.\<close>

definition setup_user_message :: "configuration \<Rightarrow> string \<Rightarrow> string" where
  \<open>setup_user_message cfg errorMessage =
     (if includes_str errorMessage ''python'' then
        ''Python not found. Please check your Python path in settings. Current path: "''
          @ pythonCommand cfg @ ''"''
      else if includes_str errorMessage ''venv'' then
        ''Failed to create virtual environment. Ensure Python has venv module installed.''
      else if includes_str errorMessage ''requirements.txt'' then
        ''Failed to install dependencies. Check if requirements.txt exists and contains valid packages.''
      else ''Failed to set up Python environment: '' @ errorMessage)\<close>

definition setup_failed :: "configuration \<Rightarrow> string \<Rightarrow> effect list" where
  "setup_failed cfg errorMessage = [ShowErrorMessage (setup_user_message cfg errorMessage)]"

text \<open>
  \<^verbatim>\<open>setupPythonEnvironment\<close>, lines 66 to 121. The result is \<open>Some (Inr path)\<close> with the
  path of the environment's interpreter, \<open>Some (Inl message)\<close> with the message of the
  error thrown, or \<open>None\<close> when the function never returns, waiting for a command that
  does not close.
\<close>

definition install_dependencies ::
  "'w machine \<Rightarrow> platform \<Rightarrow> configuration \<Rightarrow> 'w
     \<Rightarrow> effect list \<times> 'w \<times> (string + string) option"
where
  "install_dependencies m pf cfg w =
     (case runCommand m pf (pipExecutable pf) (pip_args pf) w of
        (effs, w', None) \<Rightarrow>
          (ProgressReport (Status ''Installing dependencies...'') # effs, w', None)
      | (effs, w', Some Resolved) \<Rightarrow>
          (ProgressReport (Status ''Installing dependencies...'') # effs
             @ [ProgressReport (Status ''Environment is ready.'')],
           w', Some (Inr (pythonExecutable pf)))
      | (effs, w', Some (Rejected err)) \<Rightarrow>
          (ProgressReport (Status ''Installing dependencies...'') # effs @ setup_failed cfg err,
           w', Some (Inl err)))"

definition setupPythonEnvironment ::
  "'w machine \<Rightarrow> platform \<Rightarrow> configuration \<Rightarrow> 'w
     \<Rightarrow> effect list \<times> 'w \<times> (string + string) option"
where
  "setupPythonEnvironment m pf cfg w =
     (let starting = ProgressReport (Status ''Setting up Python environment...'') in
      if \<not> stat m w (pythonExecutable pf) then
        (case runCommand m pf (pythonCommand cfg) venv_args w of
           (effs, w', None) \<Rightarrow>
             (starting # ProgressReport (Status ''Creating virtual environment...'') # effs,
              w', None)
         | (effs, w', Some (Rejected err)) \<Rightarrow>
             (starting # ProgressReport (Status ''Creating virtual environment...'') # effs
                @ setup_failed cfg err,
              w', Some (Inl err))
         | (effs, w', Some Resolved) \<Rightarrow>
             (case install_dependencies m pf cfg w' of
                (effs', w'', r) \<Rightarrow>
                  (starting # ProgressReport (Status ''Creating virtual environment...'') # effs
                     @ effs',
                   w'', r)))
      else
        (case install_dependencies m pf cfg w of (effs', w'', r) \<Rightarrow> (starting # effs', w'', r)))"

text \<open>
  Calling the provisioner \<open>n\<close> times in succession, whatever each call returns (the
  next call is made from the state the last command of the call before has left).
\<close>

fun setup_repeatedly ::
  "'w machine \<Rightarrow> platform \<Rightarrow> configuration \<Rightarrow> nat \<Rightarrow> 'w \<Rightarrow> effect list \<times> 'w"
where
  "setup_repeatedly m pf cfg 0 w = ([], w)"
| "setup_repeatedly m pf cfg (Suc n) w =
     (case setupPythonEnvironment m pf cfg w of
        (effs, w', r) \<Rightarrow>
          (case setup_repeatedly m pf cfg n w' of (effs', w'') \<Rightarrow> (effs @ effs', w'')))"

section \<open>Running the agent\<close>

definition agent_args :: "platform \<Rightarrow> string \<Rightarrow> form_data \<Rightarrow> string list" where
  "agent_args pf projectPath formData =
     [path_join (isWindows pf) [agentPath pf, ''run_agent.py''],
      ''--project-path'', projectPath,
      ''--persona'', persona formData,
      ''--pain-points'', painPoints formData,
      ''--use-cases'', useCases formData,
      ''--success-metrics'', successMetrics formData]"

definition credentials_message :: string where
  "credentials_message =
     ''Please configure your IBM Watsonx.ai API Key and Project ID in VS Code settings.''"

definition ibm_url :: "configuration \<Rightarrow> string" where
  "ibm_url cfg =
     (case truthy (ibmUrl cfg) of None \<Rightarrow> ''https://us-south.ml.cloud.ibm.com'' | Some u \<Rightarrow> u)"

text \<open>
  The environment given to the agent: that of the extension host, then the four
  variables the code sets (in \<^verbatim>\<open>{...process.env, ...}\<close> a later entry of the same name
  overrides an earlier one).
\<close>

definition agent_env :: "platform \<Rightarrow> configuration \<Rightarrow> string \<Rightarrow> string \<Rightarrow> (string \<times> string) list" where
  "agent_env pf cfg apiKey projectId =
     process_env pf @
     [(''IBM_API_KEY'', apiKey),
      (''IBM_URL'', ibm_url cfg),
      (''IBM_PROJECT_ID'', projectId),
      (''PYTHONIOENCODING'', ''utf-8'')]"

definition credentials_missing :: "effect list" where
  "credentials_missing =
     [ShowErrorMessage credentials_message,
      ChannelAppendLine (''[ERROR] '' @ credentials_message)]"

definition banner :: "string \<Rightarrow> effect list" where
  "banner projectPath =
     [ChannelClear, ChannelShow,
      ChannelAppendLine ''>>> Starting AI Agent with IBM Watsonx.ai...'',
      ChannelAppendLine (''>>> Project Path: '' @ projectPath),
      ChannelAppendLine (''---------------------------------------------------'' @ [NL])]"

text \<open>The \<^verbatim>\<open>catch\<close> block of lines 262 to 267.\<close>

definition run_failed :: "string \<Rightarrow> effect list" where
  "run_failed errorMessage =
     [ChannelAppendLine (''[SETUP ERROR] '' @ errorMessage),
      ShowErrorMessage ''Failed to run the agent. Check the output panel for details.'']"

text \<open>
  \<^verbatim>\<open>runAgent\<close>, lines 124 to 268, with the events of the agent process it starts. The
  promise it returns stays pending while the provisioner does not return, is rejected
  with the message of an error thrown before the spawn, and is otherwise the promise of
  \<open>supervise\<close>, which the \<^verbatim>\<open>catch\<close> block does not guard.
\<close>

definition runAgent ::
  "'w machine \<Rightarrow> parser \<Rightarrow> platform \<Rightarrow> configuration \<Rightarrow> string \<Rightarrow> form_data \<Rightarrow> process_event list \<Rightarrow> 'w
     \<Rightarrow> effect list \<times> 'w \<times> settlement option"
where
  "runAgent m parse pf cfg projectPath formData events w =
     (case setupPythonEnvironment m pf cfg w of
        (effs, w', None) \<Rightarrow> (effs, w', None)
      | (effs, w', Some (Inl err)) \<Rightarrow> (effs @ run_failed err, w', Some (Rejected err))
      | (effs, w', Some (Inr python)) \<Rightarrow>
          (case (truthy (ibmApiKey cfg), truthy (ibmProjectId cfg)) of
             (Some apiKey, Some projectId) \<Rightarrow>
               (case supervise parse False events of
                  (effs', r) \<Rightarrow>
                    (effs @ banner projectPath
                       @ [Spawn python (agent_args pf projectPath formData)
                            \<lparr>env = Some (agent_env pf cfg apiKey projectId), cwd = projectPath\<rparr>]
                       @ effs',
                     w', r))
           | _ \<Rightarrow>
               (effs @ banner projectPath @ credentials_missing @ run_failed credentials_message,
                w', Some (Rejected credentials_message))))"

section \<open>A reader of JSON text\<close>

text \<open>
  \<^verbatim>\<open>JSON.parse\<close> belongs to the platform, and the handlers above take it as a parameter:
  what is proved of them holds for every parser. For concrete chunks, \<open>json_parse\<close> reads
  the JSON texts whose numbers are integers and whose strings have no \<^verbatim>\<open>\u\<close> escapes, by
  recursive descent; \<open>None\<close> is the \<^verbatim>\<open>SyntaxError\<close>. The first argument of the three
  mutually recursive readers bounds the depth of their calls; \<open>json_parse\<close> gives them
  twice the length of the text and two more (a reader consumes a character on every
  second call at least).
\<close>

definition json_space :: "char \<Rightarrow> bool" where
  "json_space c \<longleftrightarrow> c \<in> set [CHR 0x20, CHR 0x09, CHR 0x0A, CHR 0x0D]"

definition is_digit :: "char \<Rightarrow> bool" where
  "is_digit c \<longleftrightarrow> c \<in> set ''0123456789''"

definition digit_value :: "char \<Rightarrow> nat" where
  "digit_value c = of_char c - 48"

definition read_nat :: "string \<Rightarrow> nat" where
  "read_nat ds = foldl (\<lambda>n d. 10 * n + digit_value d) 0 ds"

definition unescape :: "char \<Rightarrow> char option" where
  "unescape c =
     (if c = CHR 0x22 \<or> c = CHR 0x5C \<or> c = CHR ''/'' then Some c
      else if c = CHR ''b'' then Some (CHR 0x08)
      else if c = CHR ''f'' then Some (CHR 0x0C)
      else if c = CHR ''n'' then Some NL
      else if c = CHR ''r'' then Some (CHR 0x0D)
      else if c = CHR ''t'' then Some (CHR 0x09)
      else None)"

text \<open>The rest of a string literal after its opening quote, and the text after it.\<close>

fun read_string :: "string \<Rightarrow> (string \<times> string) option" where
  "read_string [] = None"
| "read_string (c # cs) =
     (if c = CHR 0x22 then Some ([], cs)
      else if c = CHR 0x5C then
        (case cs of
           [] \<Rightarrow> None
         | e # cs' \<Rightarrow>
             (case unescape e of
                None \<Rightarrow> None
              | Some d \<Rightarrow>
                  (case read_string cs' of None \<Rightarrow> None | Some (s, rest) \<Rightarrow> Some (d # s, rest))))
      else if (of_char c :: nat) < 32 then None
      else (case read_string cs of None \<Rightarrow> None | Some (s, rest) \<Rightarrow> Some (c # s, rest)))"

definition read_int :: "string \<Rightarrow> (int \<times> string) option" where
  "read_int s =
     (let negative = (s \<noteq> [] \<and> hd s = CHR ''-'');
          t = (if negative then tl s else s);
          ds = (if t \<noteq> [] \<and> hd t = CHR ''0'' then ''0'' else takeWhile is_digit t)
      in if ds = [] then None
         else Some (if negative then - int (read_nat ds) else int (read_nat ds),
                    drop (length ds) t))"

fun read_value :: "nat \<Rightarrow> string \<Rightarrow> (json \<times> string) option"
  and read_elements :: "nat \<Rightarrow> string \<Rightarrow> (json list \<times> string) option"
  and read_members :: "nat \<Rightarrow> string \<Rightarrow> ((string \<times> json) list \<times> string) option"
where
  "read_value 0 s = None"
| "read_value (Suc n) s =
     (case dropWhile json_space s of
        [] \<Rightarrow> None
      | c # cs \<Rightarrow>
          if c = CHR ''{'' then
            (case dropWhile json_space cs of
               [] \<Rightarrow> None
             | d # ds \<Rightarrow>
                 if d = CHR ''}'' then Some (JObject [], ds)
                 else (case read_members n (d # ds) of
                         None \<Rightarrow> None
                       | Some (members, rest) \<Rightarrow> Some (JObject members, rest)))
          else if c = CHR ''['' then
            (case dropWhile json_space cs of
               [] \<Rightarrow> None
             | d # ds \<Rightarrow>
                 if d = CHR '']'' then Some (JArray [], ds)
                 else (case read_elements n (d # ds) of
                         None \<Rightarrow> None
                       | Some (elements, rest) \<Rightarrow> Some (JArray elements, rest)))
          else if c = CHR 0x22 then
            (case read_string cs of None \<Rightarrow> None | Some (str, rest) \<Rightarrow> Some (JString str, rest))
          else if prefix ''true'' (c # cs) then Some (JBool True, drop 4 (c # cs))
          else if prefix ''false'' (c # cs) then Some (JBool False, drop 5 (c # cs))
          else if prefix ''null'' (c # cs) then Some (JNull, drop 4 (c # cs))
          else (case read_int (c # cs) of None \<Rightarrow> None | Some (i, rest) \<Rightarrow> Some (JNumber i, rest)))"
| "read_elements 0 s = None"
| "read_elements (Suc n) s =
     (case read_value n s of
        None \<Rightarrow> None
      | Some (v, rest) \<Rightarrow>
          (case dropWhile json_space rest of
             [] \<Rightarrow> None
           | c # cs \<Rightarrow>
               if c = CHR '','' then
                 (case read_elements n cs of
                    None \<Rightarrow> None
                  | Some (vs, rest') \<Rightarrow> Some (v # vs, rest'))
               else if c = CHR '']'' then Some ([v], cs)
               else None))"
| "read_members 0 s = None"
| "read_members (Suc n) s =
     (case dropWhile json_space s of
        [] \<Rightarrow> None
      | c # cs \<Rightarrow>
          if c \<noteq> CHR 0x22 then None
          else
            (case read_string cs of
               None \<Rightarrow> None
             | Some (key, rest) \<Rightarrow>
                 (case dropWhile json_space rest of
                    [] \<Rightarrow> None
                  | d # ds \<Rightarrow>
                      if d \<noteq> CHR '':'' then None
                      else
                        (case read_value n ds of
                           None \<Rightarrow> None
                         | Some (v, rest') \<Rightarrow>
                             (case dropWhile json_space rest' of
                                [] \<Rightarrow> None
                              | e # es \<Rightarrow>
                                  if e = CHR '','' then
                                    (case read_members n es of
                                       None \<Rightarrow> None
                                     | Some (members, rest'') \<Rightarrow> Some ((key, v) # members, rest''))
                                  else if e = CHR ''}'' then Some ([(key, v)], es)
                                  else None)))))"

definition json_parse :: parser where
  "json_parse s =
     (case read_value (2 * length s + 2) s of
        None \<Rightarrow> None
      | Some (v, rest) \<Rightarrow> if dropWhile json_space rest = [] then Some v else None)"

section \<open>Example inputs\<close>

text \<open>Lines and chunks of agent output that the theorems below are run on.\<close>

definition scanning_record :: string where
  \<open>scanning_record = ''{"type":"progress","phase":1,"message":"scanning"}''\<close>

definition log_record :: string where
  \<open>log_record = ''{"type":"log","message":"hi"}''\<close>

definition result_record :: string where
  \<open>result_record = ''{"kind":"result","files":[1,2]}''\<close>

definition log_chunk :: string where
  "log_chunk = log_record @ [NL, NL] @ result_record @ [NL]"

definition mixed_chunk :: string where
  "mixed_chunk =
     scanning_record @ [NL] @ ''Scanning project files'' @ [NL] @ ''found 12 modules''
       @ [NL] @ ''writing the plan'' @ [NL]"

definition padded_chunk :: string where
  "padded_chunk = ''Analyzing imports...'' @ [NL] @ ''still working  '' @ [NL]"

definition number_then_text :: string where
  "number_then_text = ''42'' @ [NL] @ ''hello'' @ [NL]"

definition values_chunk :: string where
  "values_chunk = ''7'' @ [NL] @ ''true'' @ [NL]"

definition text_chunk :: string where
  "text_chunk = ''Analyzing imports...'' @ [NL] @ ''  3 of 7 files done'' @ [NL] @ ''still working'' @ [NL]"

text \<open>
  A machine whose state is the list of the files present: creating the environment puts
  its interpreter in place, and every command exits with code 0. On the second machine
  the package installer exits with code 1 instead. On the third the command that is to
  create the environment cannot be started, and never closes.
\<close>

definition example_platform :: platform where
  "example_platform =
     \<lparr>extensionPath = ''/ext'', isWindows = False, process_env = [(''HOME'', ''/home/dev'')]\<rparr>"

definition example_machine :: "string list machine" where
  "example_machine =
     \<lparr>stat = (\<lambda>w p. p \<in> set w),
      exec = (\<lambda>cmd args w.
        if args = venv_args then (Closed (Some 0), pythonExecutable example_platform # w)
        else (Closed (Some 0), w))\<rparr>"

definition failing_pip_machine :: "string list machine" where
  "failing_pip_machine =
     \<lparr>stat = (\<lambda>w p. p \<in> set w),
      exec = (\<lambda>cmd args w.
        if args = venv_args then (Closed (Some 0), pythonExecutable example_platform # w)
        else (Closed (Some 1), w))\<rparr>"

definition no_interpreter_machine :: "string list machine" where
  "no_interpreter_machine =
     \<lparr>stat = (\<lambda>w p. p \<in> set w),
      exec = (\<lambda>cmd args w. if args = venv_args then (NoClose, w) else (Closed (Some 0), w))\<rparr>"

definition example_configuration :: configuration where
  "example_configuration =
     \<lparr>pythonPath = None, ibmApiKey = Some ''api-key'', ibmUrl = None,
      ibmProjectId = Some ''project-1''\<rparr>"

definition no_api_key :: configuration where
  "no_api_key =
     \<lparr>pythonPath = None, ibmApiKey = Some [], ibmUrl = None, ibmProjectId = Some ''project-1''\<rparr>"

definition no_project_id :: configuration where
  "no_project_id =
     \<lparr>pythonPath = None, ibmApiKey = Some ''api-key'', ibmUrl = None, ibmProjectId = None\<rparr>"

definition example_form :: form_data where
  "example_form =
     \<lparr>persona = ''Developer'', painPoints = ''messy imports'', useCases = ''organize modules'',
      successMetrics = ''a clean project''\<rparr>"

section \<open>Decimal rendering\<close>

lemma digit_value_digit: "k < 10 \<Longrightarrow> digit_value (digit k) = k"
proof -
  assume "k < 10"
  then have "k \<in> {0, 1, 2, 3, 4, 5, 6, 7, 8, 9}" by auto
  then show ?thesis by (auto simp: digit_value_def digit_def)
qed

lemma digit_is_digit: "k < 10 \<Longrightarrow> is_digit (digit k)"
proof -
  assume "k < 10"
  then have "k \<in> {0, 1, 2, 3, 4, 5, 6, 7, 8, 9}" by auto
  then show ?thesis by (auto simp: is_digit_def digit_def)
qed

lemma read_nat_snoc: "read_nat (ds @ [d]) = 10 * read_nat ds + digit_value d"
  by (simp add: read_nat_def)

text \<open>Reading the decimal rendering of a number gives the number back.\<close>

lemma read_show_nat: "read_nat (show_nat n) = n"
proof (induction n rule: show_nat.induct)
  case (1 n)
  show ?case
  proof (cases "n < 10")
    case True
    then show ?thesis
      by (subst show_nat.simps) (simp add: read_nat_def digit_value_digit)
  next
    case False
    with 1 show ?thesis
      by (subst show_nat.simps) (simp add: read_nat_snoc digit_value_digit)
  qed
qed

lemma show_nat_digits: "c \<in> set (show_nat n) \<Longrightarrow> is_digit c"
proof (induction n rule: show_nat.induct)
  case (1 n)
  show ?case
  proof (cases "n < 10")
    case True
    with 1(2) show ?thesis
      by (subst (asm) show_nat.simps) (simp add: digit_is_digit)
  next
    case False
    with 1 show ?thesis
      by (subst (asm) show_nat.simps) (auto simp: digit_is_digit)
  qed
qed

lemma show_nat_inject: "show_nat a = show_nat b \<Longrightarrow> a = b"
  by (metis read_show_nat)

lemma show_nat_no_minus: "show_nat n \<noteq> CHR ''-'' # s"
proof
  assume "show_nat n = CHR ''-'' # s"
  then have "CHR ''-'' \<in> set (show_nat n)" by simp
  then have "is_digit (CHR ''-'')" by (rule show_nat_digits)
  then show False by (simp add: is_digit_def)
qed

text \<open>Two exit codes with the same rendering are the same code.\<close>

lemma show_int_inject: "show_int a = show_int b \<Longrightarrow> a = b"
  by (auto simp: show_int_def show_nat_no_minus show_nat_no_minus [symmetric]
      split: if_splits dest!: show_nat_inject)

lemma show_int_small:
  "show_int 0 = ''0''" "show_int 1 = ''1''" "show_int 2 = ''2''" "show_int 3 = ''3''"
  "show_int 4 = ''4''" "show_int 17 = ''17''" "show_int 255 = ''255''"
  by (simp_all add: show_int_def show_nat.simps digit_def)

section \<open>The outcome of a closed process\<close>

text \<open>
  Claim C2. When cancellation was not requested, the \<^verbatim>\<open>close\<close> handler is a total function
  of the exit code: code 0 resolves the promise with the success notice; codes 1, 2, 3
  and 4 reject it with the fixed messages for a general error, the discovery and
  strategy phase, the execution and refactoring phase, and the documentation and
  verification phase; every other integer code rejects it with the unexpected-error-code
  message, and both the message and the rejection carry the decimal rendering of that
  code (which determines the code, by \<open>show_int_inject\<close>).
\<close>

theorem exit_code_mapping:
  "on_close False (Some 0) =
     ([separator, ChannelAppendLine ''>>> AI Agent finished successfully!'',
       ShowInformationMessage ''AI Agent finished successfully!''], Resolved)
   \<and> on_close False (Some 1) =
     ([separator, ChannelAppendLine ''>>> AI Agent process exited with error code 1.'',
       ShowErrorMessage ''Agent encountered a general error. Check the output panel for details.''],
      Rejected ''Agent process exited with code 1'')
   \<and> on_close False (Some 2) =
     ([separator, ChannelAppendLine ''>>> AI Agent process exited with error code 2.'',
       ShowErrorMessage
         ''Agent failed during Phase 1 (Discovery & Strategy). Check the output panel for details.''],
      Rejected ''Agent process exited with code 2'')
   \<and> on_close False (Some 3) =
     ([separator, ChannelAppendLine ''>>> AI Agent process exited with error code 3.'',
       ShowErrorMessage
         ''Agent failed during Phase 2 (Execution & Refactoring). Check the output panel for details.''],
      Rejected ''Agent process exited with code 3'')
   \<and> on_close False (Some 4) =
     ([separator, ChannelAppendLine ''>>> AI Agent process exited with error code 4.'',
       ShowErrorMessage
         ''Agent failed during Phase 3 (Documentation & Verification). Check the output panel for details.''],
      Rejected ''Agent process exited with code 4'')
   \<and> (\<forall>c. c \<notin> {0, 1, 2, 3, 4} \<longrightarrow>
         on_close False (Some c) =
           ([separator,
             ChannelAppendLine (''>>> AI Agent process exited with error code '' @ show_int c @ ''.''),
             ShowErrorMessage
               (''Agent process failed with unexpected error code '' @ show_int c
                  @ ''. Check the output panel for details.'')],
            Rejected (''Agent process exited with code '' @ show_int c)))"
  by (simp add: on_close_def failure_message_def show_code_def show_int_small)

theorem exit_code_mapping_witness:
  "(17::int) \<notin> {0, 1, 2, 3, 4}
   \<and> on_close False (Some 17) =
       ([separator, ChannelAppendLine ''>>> AI Agent process exited with error code 17.'',
         ShowErrorMessage
           ''Agent process failed with unexpected error code 17. Check the output panel for details.''],
        Rejected ''Agent process exited with code 17'')"
proof -
  have other: "(17::int) \<notin> {0, 1, 2, 3, 4}" by simp
  from exit_code_mapping have
    "\<forall>c. c \<notin> {0, 1, 2, 3, 4} \<longrightarrow>
       on_close False (Some c) =
         ([separator,
           ChannelAppendLine (''>>> AI Agent process exited with error code '' @ show_int c @ ''.''),
           ShowErrorMessage
             (''Agent process failed with unexpected error code '' @ show_int c
                @ ''. Check the output panel for details.'')],
          Rejected (''Agent process exited with code '' @ show_int c))"
    by blast
  with other have
    "on_close False (Some 17) =
       ([separator,
         ChannelAppendLine (''>>> AI Agent process exited with error code '' @ show_int 17 @ ''.''),
         ShowErrorMessage
           (''Agent process failed with unexpected error code '' @ show_int 17
              @ ''. Check the output panel for details.'')],
        Rejected (''Agent process exited with code '' @ show_int 17))"
    by blast
  with other show ?thesis by (simp add: show_int_small)
qed

section \<open>Traces of effects\<close>

lemma spawned_append: "spawned (a @ b) = spawned a @ spawned b"
  by (induction a rule: spawned.induct) simp_all

lemma reports_append: "reports (a @ b) = reports a @ reports b"
  by (induction a rule: reports.induct) simp_all

lemma error_messages_append: "error_messages (a @ b) = error_messages a @ error_messages b"
  by (induction a rule: error_messages.induct) simp_all

lemma channel_lines_append: "channel_lines (a @ b) = channel_lines a @ channel_lines b"
  by (induction a rule: channel_lines.induct) simp_all

section \<open>Cancellation and the exit code\<close>

text \<open>
  Up to the first \<^verbatim>\<open>close\<close> event the supervisor only collects effects; the event is then
  handled with the cancellation flag as the earlier events have left it.
\<close>

lemma supervise_until_close:
  "\<forall>e \<in> set before. \<not> is_close e \<Longrightarrow>
   supervise parse cancelled (before @ Close code # after) =
     (fst (supervise parse cancelled before)
        @ fst (on_close (cancelled \<or> CancellationRequested \<in> set before) code),
      Some (snd (on_close (cancelled \<or> CancellationRequested \<in> set before) code)))"
proof (induction before arbitrary: cancelled)
  case Nil
  then show ?case by (simp split: prod.splits)
next
  case (Cons e before)
  then have rest: "\<forall>e \<in> set before. \<not> is_close e" by simp
  show ?case
  proof (cases e)
    case (StdoutData d)
    then show ?thesis using Cons.IH [OF rest, of cancelled] by (simp split: prod.splits)
  next
    case (StderrData d)
    then show ?thesis using Cons.IH [OF rest, of cancelled] by (simp split: prod.splits)
  next
    case CancellationRequested
    then show ?thesis using Cons.IH [OF rest, of True] by (simp split: prod.splits)
  next
    case (Close c)
    with Cons.prems show ?thesis by simp
  qed
qed

text \<open>
  Claim C3. Whatever the exit code (0 included), when cancellation has been requested the
  \<^verbatim>\<open>close\<close> handler resolves the promise with the cancellation notice: the result does not
  depend on the code, is no rejection, and differs from every result of the handler
  without cancellation (success and failure alike). On a sequence of events: when the
  request arrives before the \<^verbatim>\<open>close\<close> event, the invocation ends resolved, with the
  cancellation notice as its last effects.
\<close>

theorem cancellation_precedence:
  "on_close True code =
     ([separator, ChannelAppendLine ''>>> AI Agent process was cancelled.'',
       ShowInformationMessage ''AI Agent was cancelled by user.''], Resolved)
   \<and> on_close True code \<noteq> on_close False other
   \<and> (CancellationRequested \<in> set before \<and> (\<forall>e \<in> set before. \<not> is_close e) \<longrightarrow>
        (\<exists>effs. supervise parse cancelled (before @ Close code # after) =
           (effs @ [separator, ChannelAppendLine ''>>> AI Agent process was cancelled.'',
                    ShowInformationMessage ''AI Agent was cancelled by user.''],
            Some Resolved)))"
proof -
  have handler: "on_close True code =
     ([separator, ChannelAppendLine ''>>> AI Agent process was cancelled.'',
       ShowInformationMessage ''AI Agent was cancelled by user.''], Resolved)"
    by (simp add: on_close_def)
  have differs: "on_close True code \<noteq> on_close False other"
    by (simp add: on_close_def)
  have trace: "\<exists>effs. supervise parse cancelled (before @ Close code # after) =
           (effs @ [separator, ChannelAppendLine ''>>> AI Agent process was cancelled.'',
                    ShowInformationMessage ''AI Agent was cancelled by user.''],
            Some Resolved)"
    if "CancellationRequested \<in> set before" and "\<forall>e \<in> set before. \<not> is_close e"
    using supervise_until_close [OF that(2), of parse cancelled code after] that(1) handler
    by auto
  from handler differs trace show ?thesis by blast
qed

theorem cancellation_precedence_witness:
  "CancellationRequested \<in> set [StdoutData ''working'', CancellationRequested]
   \<and> \<not> is_close (StdoutData ''working'') \<and> \<not> is_close CancellationRequested
   \<and> snd (supervise json_parse False [StdoutData ''working'', CancellationRequested, Close (Some 0)])
       = Some Resolved
   \<and> on_close True (Some 0) \<noteq> on_close False (Some 0)"
proof -
  have requested: "CancellationRequested \<in> set [StdoutData ''working'', CancellationRequested]"
    by simp
  have open_before: "\<forall>e \<in> set [StdoutData ''working'', CancellationRequested]. \<not> is_close e"
    by simp
  note claim = cancellation_precedence [where code = "Some 0" and other = "Some 0"
      and before = "[StdoutData ''working'', CancellationRequested]"
      and parse = json_parse and cancelled = False and after = "[]"]
  from claim requested open_before have
    "\<exists>effs. supervise json_parse False
        ([StdoutData ''working'', CancellationRequested] @ [Close (Some 0)]) =
      (effs @ [separator, ChannelAppendLine ''>>> AI Agent process was cancelled.'',
               ShowInformationMessage ''AI Agent was cancelled by user.''],
       Some Resolved)"
    by blast
  then have "snd (supervise json_parse False
      [StdoutData ''working'', CancellationRequested, Close (Some 0)]) = Some Resolved"
    by auto
  moreover from claim have "on_close True (Some 0) \<noteq> on_close False (Some 0)"
    by blast
  ultimately show ?thesis by simp
qed

text \<open>
  Claim C10. A process that ends without a numeric exit code (the \<^verbatim>\<open>close\<close> event delivers
  \<^verbatim>\<open>null\<close>), with no cancellation requested, rejects the promise through the default branch
  of the \<^verbatim>\<open>switch\<close>: the unexpected-error-code message, with \<^verbatim>\<open>null\<close> for the code. That is
  not the success result, not the cancellation result, and none of the messages of the
  codes 1 to 4.
\<close>

theorem signal_exit_is_failure:
  "on_close False None =
     ([separator, ChannelAppendLine ''>>> AI Agent process exited with error code null.'',
       ShowErrorMessage
         ''Agent process failed with unexpected error code null. Check the output panel for details.''],
      Rejected ''Agent process exited with code null'')
   \<and> failure_message None \<noteq> failure_message (Some 1)
   \<and> failure_message None \<noteq> failure_message (Some 2)
   \<and> failure_message None \<noteq> failure_message (Some 3)
   \<and> failure_message None \<noteq> failure_message (Some 4)
   \<and> on_close False None \<noteq> on_close False (Some 0)
   \<and> on_close False None \<noteq> on_close True code
   \<and> (CancellationRequested \<notin> set before \<and> (\<forall>e \<in> set before. \<not> is_close e) \<longrightarrow>
        snd (supervise parse False (before @ Close None # after)) =
          Some (Rejected ''Agent process exited with code null''))"
proof -
  have trace: "snd (supervise parse False (before @ Close None # after)) =
          Some (Rejected ''Agent process exited with code null'')"
    if "CancellationRequested \<notin> set before" and "\<forall>e \<in> set before. \<not> is_close e"
    using supervise_until_close [OF that(2), of parse False None after] that(1)
    by (auto simp: on_close_def show_code_def)
  then show ?thesis
    by (simp add: on_close_def failure_message_def show_code_def)
qed

theorem signal_exit_is_failure_witness:
  "CancellationRequested \<notin> set [StdoutData ''working'', StderrData ''killed'']
   \<and> \<not> is_close (StdoutData ''working'') \<and> \<not> is_close (StderrData ''killed'')
   \<and> snd (supervise json_parse False [StdoutData ''working'', StderrData ''killed'', Close None])
       = Some (Rejected ''Agent process exited with code null'')"
proof -
  have not_requested: "CancellationRequested \<notin> set [StdoutData ''working'', StderrData ''killed'']"
    by simp
  have open_before: "\<forall>e \<in> set [StdoutData ''working'', StderrData ''killed'']. \<not> is_close e"
    by simp
  from signal_exit_is_failure [where before = "[StdoutData ''working'', StderrData ''killed'']"
      and parse = json_parse and after = "[]"] not_requested open_before
  have "snd (supervise json_parse False
      ([StdoutData ''working'', StderrData ''killed''] @ [Close None]))
      = Some (Rejected ''Agent process exited with code null'')"
    by blast
  then show ?thesis by simp
qed

section \<open>Standard-error chunks\<close>

lemma failure_message_not_notice: "failure_message code \<noteq> stderr_notice"
  by (simp add: failure_message_def stderr_notice_def)

lemma progress_line_reports:
  "fst (progress_line parse line) = map ProgressReport (reports (fst (progress_line parse line)))"
  by (simp add: progress_line_def split: option.splits sum.splits)

lemma progress_lines_reports:
  "fst (progress_lines parse lines) = map ProgressReport (reports (fst (progress_lines parse lines)))"
proof (induction lines)
  case Nil
  then show ?case by simp
next
  case (Cons line lines)
  then show ?case
    using progress_line_reports [of parse line]
    by (auto simp: reports_append split: prod.splits option.splits)
qed

lemma last_line_fallback_reports:
  "fst (last_line_fallback output) = map ProgressReport (reports (fst (last_line_fallback output)))"
  by (simp add: last_line_fallback_def split: option.splits)

lemma on_stdout_effects:
  "fst (on_stdout parse output) =
     ChannelAppend output # map ProgressReport (reports (fst (on_stdout parse output)))"
  using progress_lines_reports [of parse "split_nl (trim output)"]
    last_line_fallback_reports [of "output"]
  by (auto simp: on_stdout_def try_catch_def reports_append split: prod.splits option.splits)

lemma error_messages_reports: "error_messages (map ProgressReport rs) = []"
  by (induction rs) simp_all

lemma channel_lines_reports: "channel_lines (map ProgressReport rs) = []"
  by (induction rs) simp_all

lemma spawned_reports: "spawned (map ProgressReport rs) = []"
  by (induction rs) simp_all

lemma error_messages_on_stdout: "error_messages (fst (on_stdout parse d)) = []"
  by (subst on_stdout_effects) (simp add: error_messages_reports)

lemma channel_lines_on_stdout: "channel_lines (fst (on_stdout parse d)) = []"
  by (subst on_stdout_effects) (simp add: channel_lines_reports)

lemma count_notice_on_close:
  "count_list (error_messages (fst (on_close cancelled code))) stderr_notice = 0"
  using failure_message_not_notice [of code] by (auto simp: on_close_def separator_def)

lemma error_lines_on_close:
  "filter (prefix ''[ERROR] '') (channel_lines (fst (on_close cancelled code))) = []"
  by (simp add: on_close_def separator_def)

lemma fst_supervise:
  "fst (supervise parse cancelled (StdoutData d # events)) =
     fst (on_stdout parse d) @ fst (supervise parse cancelled events)"
  "fst (supervise parse cancelled (StderrData d # events)) =
     on_stderr d @ fst (supervise parse cancelled events)"
  "fst (supervise parse cancelled (CancellationRequested # events)) =
     (if cancelled then [] else on_cancellation_requested) @ fst (supervise parse True events)"
  "fst (supervise parse cancelled (Close code # events)) = fst (on_close cancelled code)"
  by (simp_all split: prod.splits)

text \<open>
  Claim C4, as amended. The standard-error handler has no memory of earlier chunks: each
  chunk that arrives before the process closes shows the error notification once more,
  so \<open>k\<close> chunks show it \<open>k\<close> times (once per chunk, however many lines the chunk has),
  and each chunk is appended to the log as one \<^verbatim>\<open>[ERROR]\<close> line.
\<close>

theorem stderr_notification_per_chunk:
  "count_list (error_messages (fst (supervise parse cancelled events))) stderr_notice
     = length (stderr_chunks events)
   \<and> filter (prefix ''[ERROR] '') (channel_lines (fst (supervise parse cancelled events)))
     = map (\<lambda>chunk. ''[ERROR] '' @ chunk) (stderr_chunks events)"
proof (induction events arbitrary: cancelled)
  case Nil
  then show ?case by simp
next
  case (Cons e events)
  show ?case
  proof (cases e)
    case (StdoutData d)
    then show ?thesis using Cons.IH [of cancelled]
      by (simp add: fst_supervise error_messages_append channel_lines_append
          error_messages_on_stdout channel_lines_on_stdout del: supervise.simps)
  next
    case (StderrData d)
    then show ?thesis using Cons.IH [of cancelled]
      by (simp add: fst_supervise on_stderr_def del: supervise.simps)
  next
    case CancellationRequested
    then show ?thesis using Cons.IH [of True]
      by (simp add: fst_supervise on_cancellation_requested_def del: supervise.simps)
  next
    case (Close code)
    then show ?thesis
      using count_notice_on_close [of cancelled code] error_lines_on_close [of cancelled code]
      by (simp add: fst_supervise del: supervise.simps)
  qed
qed

text \<open>
  Claim C4 as stated (at most one notification per invocation) fails: two chunks on
  standard error, then a clean exit, show the notification twice.
\<close>

theorem stderr_notification_counterexample:
  "error_messages (fst (supervise json_parse False
      [StderrData ''warning one'', StderrData ''warning two'', Close (Some 0)]))
   = [stderr_notice, stderr_notice]"
  by (simp add: on_stderr_def on_close_def separator_def)

section \<open>The parser of the progress stream\<close>

lemma on_stdout_never_throws: "snd (on_stdout parse output) = None"
  by (simp add: on_stdout_def try_catch_def last_line_fallback_def
      split: prod.splits option.splits)

lemma reports_on_stdout:
  "reports (fst (on_stdout parse output)) =
     reports (fst (progress_lines parse (split_nl (trim output))))
       @ (if snd (progress_lines parse (split_nl (trim output))) = None then []
          else reports (fst (last_line_fallback output)))"
  by (auto simp: on_stdout_def try_catch_def reports_append split: prod.splits option.splits)

lemma fallback_no_phase: "filter is_phase (reports (fst (last_line_fallback output))) = []"
  by (simp add: last_line_fallback_def split: option.splits)

text \<open>
  Any line that parses, to anything but \<^verbatim>\<open>null\<close>, and is no progress record is passed over
  in silence.
\<close>

lemma parsed_line_is_silent:
  "parse line = Some v \<Longrightarrow> v \<noteq> JNull \<Longrightarrow> \<not> progress_record parse line \<Longrightarrow>
   progress_line parse line = ([], None)"
  by (auto simp: progress_line_def progress_record_def get_prop_def split: sum.splits json.splits)

lemma other_record_line: "other_record parse line \<Longrightarrow> progress_line parse line = ([], None)"
  by (auto simp: other_record_def progress_line_def get_prop_def
      split: option.splits json.splits)

lemma other_record_lines:
  "\<forall>line \<in> set lines. trim line \<noteq> [] \<longrightarrow> other_record parse line \<Longrightarrow>
   progress_lines parse lines = ([], None)"
  by (induction lines) (simp_all add: other_record_line)

text \<open>
  Claim C6, as amended. A line that parses as a record whose kind is not \<^verbatim>\<open>"progress"\<close>
  produces no event and raises nothing: the loop goes on to the next line, and the
  last-line fallback, which only the \<^verbatim>\<open>catch\<close> block makes, is not triggered by it. A chunk
  whose non-blank lines are all of that kind is appended to the log and yields no event
  at all.
\<close>

theorem unknown_record_is_skipped:
  "(other_record parse line \<longrightarrow> progress_line parse line = ([], None))
   \<and> ((\<forall>line \<in> set (split_nl (trim output)). trim line \<noteq> [] \<longrightarrow> other_record parse line) \<longrightarrow>
        on_stdout parse output = ([ChannelAppend output], None))"
  by (auto simp: other_record_line other_record_lines on_stdout_def try_catch_def)

theorem unknown_record_is_skipped_witness:
  "other_record json_parse log_record
   \<and> progress_line json_parse log_record = ([], None)
   \<and> other_record json_parse result_record
   \<and> on_stdout json_parse log_chunk = ([ChannelAppend log_chunk], None)"
proof -
  have lines: "split_nl (trim log_chunk) = [log_record, [], result_record]"
    by code_simp
  have other: "other_record json_parse log_record" "other_record json_parse result_record"
    by code_simp+
  have all: "\<forall>line \<in> set (split_nl (trim log_chunk)). trim line \<noteq> [] \<longrightarrow> other_record json_parse line"
    using other unfolding lines by (simp add: trim_def)
  note claim = unknown_record_is_skipped [of json_parse log_record log_chunk]
  from claim other(1) have "progress_line json_parse log_record = ([], None)"
    by blast
  moreover from claim all have "on_stdout json_parse log_chunk = ([ChannelAppend log_chunk], None)"
    by blast
  ultimately show ?thesis using other by simp
qed

text \<open>
  Claim C6 as stated fails: the line \<^verbatim>\<open>{"type":"log","message":"hi"}\<close> parses as a record of
  another kind, and the chunk made of it yields no event, where the claim promises a
  \<open>Raw\<close> event.
\<close>

theorem unknown_record_counterexample:
  "json_parse log_record = Some (JObject [(''type'', JString ''log''), (''message'', JString ''hi'')])
   \<and> on_stdout json_parse log_record = ([ChannelAppend log_record], None)"
  by code_simp

lemma phase_count_line:
  "length (filter is_phase (reports (fst (progress_line parse line))))
     = (if progress_record parse line \<and> snd (progress_line parse line) = None then 1 else 0)"
  by (auto simp: progress_line_def progress_record_def split: option.splits sum.splits)

lemma phase_count_lines:
  "length (filter is_phase (reports (fst (progress_lines parse lines))))
     \<le> length (filter (progress_record parse) (filter (\<lambda>l. trim l \<noteq> []) lines))"
proof (induction lines)
  case Nil
  then show ?case by simp
next
  case (Cons line lines)
  then show ?case
    using phase_count_line [of parse line]
    by (auto simp: reports_append split: prod.splits option.splits if_splits)
qed

lemma phase_count_stdout:
  "length (filter is_phase (reports (fst (on_stdout parse output))))
     = length (filter is_phase (reports (fst (progress_lines parse (split_nl (trim output))))))"
  by (simp add: reports_on_stdout fallback_no_phase)

lemma well_formed_line:
  "well_formed_progress parse line \<Longrightarrow>
   \<exists>msg. progress_line parse line = ([ProgressReport (Phase msg)], None)"
  by (auto simp: well_formed_progress_def progress_line_def scalar_def template_string_def
      split: option.splits sum.splits json.splits)

lemma skipped_line:
  "\<not> progress_record parse line \<Longrightarrow> reports (fst (progress_line parse line)) = []"
  by (auto simp: progress_line_def progress_record_def split: option.splits sum.splits)

lemma no_phase_lines:
  "\<forall>line \<in> set lines. \<not> progress_record parse line \<Longrightarrow>
   reports (fst (progress_lines parse lines)) = []"
proof (induction lines)
  case Nil
  then show ?case by simp
next
  case (Cons line lines)
  then show ?case
    using skipped_line [of parse line]
    by (auto simp: reports_append split: prod.splits option.splits)
qed

lemma reports_lines_Cons:
  "reports (fst (progress_lines parse (line # lines))) =
     (if trim line \<noteq> [] then
        reports (fst (progress_line parse line))
          @ (if snd (progress_line parse line) = None
             then reports (fst (progress_lines parse lines)) else [])
      else reports (fst (progress_lines parse lines)))"
  by (auto simp: reports_append split: prod.splits option.splits)

text \<open>
  Claim C8. The handler never lets an exception escape, whatever the chunk and whatever
  the parser does; there are at most as many \<open>Phase\<close> events as the chunk has non-blank
  lines that parse as records of kind \<^verbatim>\<open>"progress"\<close>; and a chunk of one well-formed
  progress record followed by three lines that are no such records yields exactly one
  \<open>Phase\<close> event.
\<close>

theorem parser_robustness:
  "snd (on_stdout parse output) = None
   \<and> length (filter is_phase (reports (fst (on_stdout parse output))))
       \<le> length (filter (progress_record parse)
           (filter (\<lambda>line. trim line \<noteq> []) (split_nl (trim output))))
   \<and> (split_nl (trim output) = [record, a, b, c] \<and> well_formed_progress parse record
        \<and> \<not> progress_record parse a \<and> \<not> progress_record parse b \<and> \<not> progress_record parse c
      \<longrightarrow> length (filter is_phase (reports (fst (on_stdout parse output)))) = 1)"
proof -
  have one: "length (filter is_phase (reports (fst (on_stdout parse output)))) = 1"
    if lines: "split_nl (trim output) = [record, a, b, c]"
      and wf: "well_formed_progress parse record"
      and rest: "\<not> progress_record parse a" "\<not> progress_record parse b" "\<not> progress_record parse c"
  proof -
    from wf obtain msg where first: "progress_line parse record = ([ProgressReport (Phase msg)], None)"
      using well_formed_line by blast
    from wf have nonblank: "trim record \<noteq> []" by (simp add: well_formed_progress_def)
    from rest have "\<forall>line \<in> set [a, b, c]. \<not> progress_record parse line" by simp
    then have "reports (fst (progress_lines parse [a, b, c])) = []"
      by (rule no_phase_lines)
    with first nonblank have
      "filter is_phase (reports (fst (progress_lines parse (record # [a, b, c])))) = [Phase msg]"
      by (simp only: reports_lines_Cons) simp
    with lines show ?thesis by (simp add: phase_count_stdout)
  qed
  show ?thesis
    using one phase_count_lines [of parse "split_nl (trim output)"]
    by (simp add: on_stdout_never_throws phase_count_stdout)
qed

theorem parser_robustness_witness:
  "split_nl (trim mixed_chunk) =
     [scanning_record, ''Scanning project files'', ''found 12 modules'', ''writing the plan'']
   \<and> well_formed_progress json_parse scanning_record
   \<and> \<not> progress_record json_parse ''Scanning project files''
   \<and> \<not> progress_record json_parse ''found 12 modules''
   \<and> \<not> progress_record json_parse ''writing the plan''
   \<and> length (filter is_phase (reports (fst (on_stdout json_parse mixed_chunk)))) = 1
   \<and> snd (on_stdout json_parse mixed_chunk) = None"
proof -
  have lines: "split_nl (trim mixed_chunk) =
     [scanning_record, ''Scanning project files'', ''found 12 modules'', ''writing the plan'']"
    by code_simp
  have wf: "well_formed_progress json_parse scanning_record"
    by code_simp
  have rest: "\<not> progress_record json_parse ''Scanning project files''"
    "\<not> progress_record json_parse ''found 12 modules''"
    "\<not> progress_record json_parse ''writing the plan''"
    by code_simp+
  note claim = parser_robustness [of json_parse mixed_chunk scanning_record
      "''Scanning project files''" "''found 12 modules''" "''writing the plan''"]
  from claim lines wf rest have
    "length (filter is_phase (reports (fst (on_stdout json_parse mixed_chunk)))) = 1"
    by blast
  moreover from claim have "snd (on_stdout json_parse mixed_chunk) = None"
    by blast
  ultimately show ?thesis using lines wf rest by simp
qed

section \<open>The last-line fallback\<close>

lemma is_space_NL: "is_space NL"
  by (simp add: is_space_def)

lemma trim_Nil_iff: "trim s = [] \<longleftrightarrow> (\<forall>c \<in> set s. is_space c)"
proof
  assume "trim s = []"
  then have "dropWhile is_space (rev (dropWhile is_space s)) = []"
    by (simp add: trim_def)
  then have "\<forall>c \<in> set (dropWhile is_space s). is_space c"
    by (metis dropWhile_eq_Nil_conv set_rev)
  then have "dropWhile is_space s = []"
    using hd_dropWhile [of is_space s] by (cases "dropWhile is_space s") auto
  then show "\<forall>c \<in> set s. is_space c" by (simp add: dropWhile_eq_Nil_conv)
next
  assume "\<forall>c \<in> set s. is_space c"
  then show "trim s = []" by (auto simp: trim_def dest: set_dropWhileD)
qed

lemma trim_hd: "trim s = c # cs \<Longrightarrow> \<not> is_space c"
proof -
  assume eq: "trim s = c # cs"
  define t where "t = dropWhile is_space s"
  have "rev t = takeWhile is_space (rev t) @ dropWhile is_space (rev t)" by simp
  then have "t = rev (dropWhile is_space (rev t)) @ rev (takeWhile is_space (rev t))"
    by (metis rev_append rev_rev_ident)
  with eq have "t = (c # cs) @ rev (takeWhile is_space (rev t))"
    by (simp add: trim_def t_def)
  then obtain zs where "t = c # zs" by (metis append_Cons)
  then have "dropWhile is_space s \<noteq> []" "hd (dropWhile is_space s) = c"
    by (simp_all add: t_def [symmetric])
  then show ?thesis using hd_dropWhile [of is_space s] by auto
qed

lemma trim_last: "trim s \<noteq> [] \<Longrightarrow> \<not> is_space (last (trim s))"
proof -
  assume "trim s \<noteq> []"
  then have ne: "dropWhile is_space (rev (dropWhile is_space s)) \<noteq> []"
    by (simp add: trim_def)
  then have "\<not> is_space (hd (dropWhile is_space (rev (dropWhile is_space s))))"
    by (rule hd_dropWhile)
  with ne show ?thesis by (simp add: trim_def last_rev)
qed

lemma split_nl_not_Nil: "split_nl s \<noteq> []"
  by (induction s) (auto split: list.splits)

lemma last_split_nl: "s \<noteq> [] \<Longrightarrow> last s \<noteq> NL \<Longrightarrow> last (split_nl s) \<noteq> []"
proof (induction s)
  case Nil
  then show ?case by simp
next
  case (Cons c cs)
  show ?case
  proof (cases "cs = []")
    case True
    with Cons.prems show ?thesis by simp
  next
    case False
    with Cons have "last (split_nl cs) \<noteq> []" by simp
    then show ?thesis
      using split_nl_not_Nil [of cs] by (cases "split_nl cs") (auto split: list.splits)
  qed
qed

lemma last_line_not_empty:
  assumes "trim output \<noteq> []"
  shows "last (split_nl (trim output)) \<noteq> []"
proof -
  from assms have "\<not> is_space (last (trim output))" by (rule trim_last)
  then have "last (trim output) \<noteq> NL" using is_space_NL by auto
  with assms show ?thesis by (rule last_split_nl)
qed

text \<open>Splitting at line feeds, and the last line of a chunk.\<close>

lemma split_nl_append: "split_nl (a @ NL # b) = split_nl a @ split_nl b"
proof (induction a)
  case Nil
  then show ?case by simp
next
  case (Cons c a)
  then show ?case
    using split_nl_not_Nil [of a] by (cases "split_nl a") auto
qed

lemma split_nl_line: "NL \<notin> set l \<Longrightarrow> split_nl l = [l]"
  by (induction l) auto

lemma last_line_after_newline:
  assumes "NL \<notin> set line" and "before = [] \<or> last before = NL"
  shows "last (split_nl (before @ line)) = line"
proof (cases "before = []")
  case True
  with assms(1) show ?thesis by (simp add: split_nl_line)
next
  case False
  with assms(2) obtain b where "before = b @ [NL]"
    by (metis append_butlast_last_id)
  with assms(1) show ?thesis by (simp add: split_nl_append split_nl_line)
qed

lemma last_dropWhile_suffix: "dropWhile P xs \<noteq> [] \<Longrightarrow> last (dropWhile P xs) = last xs"
  by (induction xs) (auto split: if_splits)

lemma dropWhile_start: "line \<noteq> [] \<Longrightarrow> \<not> P (hd line) \<Longrightarrow> dropWhile P (line @ rest) = line @ rest"
  by (cases line) auto

text \<open>
  The last line of the trimmed chunk is the last non-empty line of the chunk itself,
  when that line has no white space at its ends and only white space follows it.
\<close>

lemma last_line_of_chunk:
  assumes line: "line \<noteq> []" "NL \<notin> set line" "\<not> is_space (hd line)" "\<not> is_space (last line)"
    and before: "before = [] \<or> last before = NL"
    and after: "\<forall>c \<in> set ws. is_space c"
  shows "last (split_nl (trim (before @ line @ ws))) = line"
proof -
  define b where "b = (if \<forall>c \<in> set before. is_space c then [] else dropWhile is_space before)"
  from line(1,3) have inner: "dropWhile is_space (line @ ws) = line @ ws"
    by (rule dropWhile_start)
  have front: "dropWhile is_space (before @ line @ ws) = b @ line @ ws"
    unfolding b_def dropWhile_append [of is_space before "line @ ws"] inner by simp
  have b: "b = [] \<or> last b = NL"
  proof (cases "b = []")
    case True
    then show ?thesis by simp
  next
    case False
    then have "b = dropWhile is_space before" "before \<noteq> []"
      by (auto simp: b_def split: if_splits)
    with False before show ?thesis by (simp add: last_dropWhile_suffix)
  qed
  from line(1,4) have "rev line \<noteq> []" "\<not> is_space (hd (rev line))"
    by (simp_all add: hd_rev)
  then have "dropWhile is_space (rev line @ rev b) = rev line @ rev b"
    by (rule dropWhile_start)
  with after have "dropWhile is_space (rev (b @ line @ ws)) = rev line @ rev b"
    by (simp add: dropWhile_append)
  with front have "trim (before @ line @ ws) = b @ line"
    by (simp add: trim_def)
  with line(2) b show ?thesis by (simp add: last_line_after_newline)
qed

text \<open>Lines that cannot be read, and the last non-empty line of a chunk.\<close>

lemma unreadable_line:
  "unreadable parse line \<Longrightarrow> \<exists>e. progress_line parse line = ([], Some e)"
  by (auto simp: unreadable_def progress_line_def get_prop_def)

lemma readable_line:
  "\<not> unreadable parse line \<Longrightarrow> \<not> progress_record parse line \<Longrightarrow>
   progress_line parse line = ([], None)"
  using parsed_line_is_silent [of parse line]
  by (cases "parse line") (auto simp: unreadable_def)

lemma unreadable_lines:
  "\<forall>line \<in> set lines. trim line \<noteq> [] \<longrightarrow> \<not> progress_record parse line \<Longrightarrow>
   \<exists>line \<in> set lines. trim line \<noteq> [] \<and> unreadable parse line \<Longrightarrow>
   \<exists>e. progress_lines parse lines = ([], Some e)"
proof (induction lines)
  case Nil
  then show ?case by simp
next
  case (Cons line lines)
  show ?case
  proof (cases "trim line \<noteq> [] \<and> unreadable parse line")
    case True
    then obtain e where "progress_line parse line = ([], Some e)"
      using unreadable_line by blast
    with True show ?thesis by simp
  next
    case False
    with Cons.prems(2) have later: "\<exists>line \<in> set lines. trim line \<noteq> [] \<and> unreadable parse line"
      by auto
    from Cons.prems(1) have "\<forall>line \<in> set lines. trim line \<noteq> [] \<longrightarrow> \<not> progress_record parse line"
      by simp
    from Cons.IH [OF this later] obtain e where rest: "progress_lines parse lines = ([], Some e)"
      by blast
    show ?thesis
    proof (cases "trim line \<noteq> []")
      case True
      with False have "\<not> unreadable parse line" by simp
      moreover from True Cons.prems(1) have "\<not> progress_record parse line" by simp
      ultimately have "progress_line parse line = ([], None)" by (rule readable_line)
      with True rest show ?thesis by simp
    next
      case False
      with rest show ?thesis by simp
    qed
  qed
qed

lemma readable_lines:
  "\<forall>line \<in> set lines. trim line \<noteq> [] \<longrightarrow> \<not> progress_record parse line \<and> \<not> unreadable parse line \<Longrightarrow>
   progress_lines parse lines = ([], None)"
  by (induction lines) (simp_all add: readable_line)

lemma trim_empty: "trim [] = []"
  by (simp add: trim_def)

lemma nonblank_line_in_chunk:
  "\<exists>line \<in> set (split_nl (trim output)). trim line \<noteq> [] \<Longrightarrow> trim output \<noteq> []"
  by (auto simp: trim_empty)

lemma chars_of_lines: "\<forall>l \<in> set (split_nl s). set l \<subseteq> set s"
proof (induction s)
  case Nil
  then show ?case by simp
next
  case (Cons c s)
  obtain l ls where lines: "split_nl s = l # ls"
    using split_nl_not_Nil [of s] by (cases "split_nl s") auto
  with Cons have "set l \<subseteq> set s" "\<forall>k \<in> set ls. set k \<subseteq> set s" by simp_all
  with lines show ?case by auto
qed

lemma blank_lines: "\<forall>c \<in> set s. is_space c \<Longrightarrow> l \<in> set (split_nl s) \<Longrightarrow> trim l = []"
  using chars_of_lines [of s] by (auto simp: trim_Nil_iff)

lemma lines_before_last:
  assumes "NL \<notin> set line" and "before = [] \<or> last before = NL"
  shows "\<exists>pre. split_nl (before @ line) = pre @ [line]"
proof (cases "before = []")
  case True
  with assms(1) show ?thesis by (simp add: split_nl_line)
next
  case False
  with assms(2) obtain b where "before = b @ [NL]"
    by (metis append_butlast_last_id)
  with assms(1) show ?thesis by (simp add: split_nl_append split_nl_line)
qed

lemma last_nonempty_line_of_chunk:
  assumes line: "lastLine \<noteq> []" "NL \<notin> set lastLine" "\<not> is_space (hd lastLine)"
    and before: "before = [] \<or> last before = NL"
    and next_line: "ws = [] \<or> hd ws = NL"
    and after: "\<forall>c \<in> set ws. is_space c"
  shows "last_nonempty_line (before @ lastLine @ ws) = Some lastLine"
proof -
  from line(2) before obtain pre where pre: "split_nl (before @ lastLine) = pre @ [lastLine]"
    using lines_before_last by blast
  from line(1,3) have nonblank: "trim lastLine \<noteq> []"
    by (cases lastLine) (auto simp: trim_Nil_iff)
  have "\<exists>post. split_nl (before @ lastLine @ ws) = pre @ [lastLine] @ post
      \<and> (\<forall>l \<in> set post. trim l = [])"
  proof (cases ws)
    case Nil
    with pre show ?thesis by simp
  next
    case (Cons c ws')
    with next_line have c: "c = NL" by simp
    from after Cons have "\<forall>c \<in> set ws'. is_space c" by simp
    then have "\<forall>l \<in> set (split_nl ws'). trim l = []"
      using blank_lines by blast
    moreover have "split_nl (before @ lastLine @ ws) = pre @ [lastLine] @ split_nl ws'"
      using split_nl_append [of "before @ lastLine" ws'] pre by (simp add: Cons c)
    ultimately show ?thesis by blast
  qed
  then obtain post where "split_nl (before @ lastLine @ ws) = pre @ [lastLine] @ post"
    and "\<forall>l \<in> set post. trim l = []"
    by blast
  with nonblank show ?thesis
    by (simp add: last_nonempty_line_def pop_def)
qed

text \<open>
  Claim C9, as amended. For every chunk that contains no progress record (so for every
  chunk with no parseable record at all) and has a non-blank line that cannot be read
  (\<^verbatim>\<open>JSON.parse\<close> throws on it, or it is the text \<^verbatim>\<open>null\<close>), the handler yields exactly one
  event, a \<open>Raw\<close> event, whose message is the last line of the chunk once the white space
  around the chunk is trimmed, and that line is not empty; the fallback runs once for
  the chunk, at the first line that cannot be read. The message is the last non-empty
  line of the chunk whenever that line has no white space at its ends. When every
  non-blank line of such a chunk can be read (a number, a string, a record of another
  kind), nothing is thrown and the handler yields no event.
\<close>

theorem raw_line_fallback:
  "((\<forall>line \<in> set (split_nl (trim output)). trim line \<noteq> [] \<longrightarrow> \<not> progress_record parse line)
    \<and> (\<exists>line \<in> set (split_nl (trim output)). trim line \<noteq> [] \<and> unreadable parse line)
    \<longrightarrow> on_stdout parse output =
          ([ChannelAppend output, ProgressReport (Raw (last (split_nl (trim output))))], None)
        \<and> last (split_nl (trim output)) \<noteq> [])
   \<and> ((\<forall>line \<in> set (split_nl (trim output)). trim line \<noteq> [] \<longrightarrow> \<not> progress_record parse line)
       \<and> (\<exists>line \<in> set (split_nl (trim output)). trim line \<noteq> [] \<and> unreadable parse line)
       \<and> output = before @ lastLine @ ws
       \<and> (before = [] \<or> last before = NL)
       \<and> lastLine \<noteq> [] \<and> NL \<notin> set lastLine
       \<and> \<not> is_space (hd lastLine) \<and> \<not> is_space (last lastLine)
       \<and> (ws = [] \<or> hd ws = NL) \<and> (\<forall>c \<in> set ws. is_space c)
       \<longrightarrow> last_nonempty_line output = Some lastLine
         \<and> on_stdout parse output = ([ChannelAppend output, ProgressReport (Raw lastLine)], None))
   \<and> ((\<forall>line \<in> set (split_nl (trim output)).
          trim line \<noteq> [] \<longrightarrow> \<not> progress_record parse line \<and> \<not> unreadable parse line)
       \<longrightarrow> on_stdout parse output = ([ChannelAppend output], None))"
proof -
  have fallback: "on_stdout parse output =
         ([ChannelAppend output, ProgressReport (Raw (last (split_nl (trim output))))], None)
       \<and> last (split_nl (trim output)) \<noteq> []"
    if no_progress: "\<forall>line \<in> set (split_nl (trim output)).
        trim line \<noteq> [] \<longrightarrow> \<not> progress_record parse line"
      and some: "\<exists>line \<in> set (split_nl (trim output)). trim line \<noteq> [] \<and> unreadable parse line"
  proof -
    from no_progress some obtain e where thrown:
      "progress_lines parse (split_nl (trim output)) = ([], Some e)"
      using unreadable_lines by blast
    from some have "trim output \<noteq> []"
      using nonblank_line_in_chunk [of "output"] by blast
    then have last: "last (split_nl (trim output)) \<noteq> []" by (rule last_line_not_empty)
    then have "last_line_fallback output =
        ([ProgressReport (Raw (last (split_nl (trim output))))], None)"
      by (simp add: last_line_fallback_def pop_def split_nl_not_Nil)
    with thrown last show ?thesis
      by (simp add: on_stdout_def try_catch_def)
  qed
  have named: "last_nonempty_line output = Some lastLine
      \<and> on_stdout parse output = ([ChannelAppend output, ProgressReport (Raw lastLine)], None)"
    if no_progress: "\<forall>line \<in> set (split_nl (trim output)).
        trim line \<noteq> [] \<longrightarrow> \<not> progress_record parse line"
      and some: "\<exists>line \<in> set (split_nl (trim output)). trim line \<noteq> [] \<and> unreadable parse line"
      and chunk: "output = before @ lastLine @ ws"
      and before: "before = [] \<or> last before = NL"
      and line: "lastLine \<noteq> []" "NL \<notin> set lastLine"
        "\<not> is_space (hd lastLine)" "\<not> is_space (last lastLine)"
      and next_line: "ws = [] \<or> hd ws = NL"
      and after: "\<forall>c \<in> set ws. is_space c"
  proof -
    from line before after have "last (split_nl (trim output)) = lastLine"
      unfolding chunk by (rule last_line_of_chunk)
    moreover from line(1,2,3) before next_line after have "last_nonempty_line output = Some lastLine"
      unfolding chunk by (rule last_nonempty_line_of_chunk)
    ultimately show ?thesis using fallback [OF no_progress some] by simp
  qed
  have silent: "on_stdout parse output = ([ChannelAppend output], None)"
    if "\<forall>line \<in> set (split_nl (trim output)).
          trim line \<noteq> [] \<longrightarrow> \<not> progress_record parse line \<and> \<not> unreadable parse line"
    using readable_lines [OF that] by (simp add: on_stdout_def try_catch_def)
  from fallback named silent show ?thesis by blast
qed

theorem raw_line_fallback_witness:
  "\<not> progress_record json_parse ''42'' \<and> \<not> progress_record json_parse ''hello''
   \<and> unreadable json_parse ''hello''
   \<and> on_stdout json_parse number_then_text =
       ([ChannelAppend number_then_text, ProgressReport (Raw ''hello'')], None)
   \<and> unreadable json_parse ''Analyzing imports...''
   \<and> text_chunk = (''Analyzing imports...'' @ [NL] @ ''  3 of 7 files done'' @ [NL])
         @ ''still working'' @ [NL]
   \<and> last_nonempty_line text_chunk = Some ''still working''
   \<and> on_stdout json_parse text_chunk =
       ([ChannelAppend text_chunk, ProgressReport (Raw ''still working'')], None)
   \<and> \<not> unreadable json_parse ''7'' \<and> \<not> unreadable json_parse ''true''
   \<and> on_stdout json_parse values_chunk = ([ChannelAppend values_chunk], None)"
proof -
  have number_lines: "split_nl (trim number_then_text) = [''42'', ''hello'']"
    by code_simp
  have number_facts: "\<not> progress_record json_parse ''42''" "\<not> progress_record json_parse ''hello''"
    "unreadable json_parse ''hello''"
    by code_simp+
  have number_no_progress: "\<forall>line \<in> set (split_nl (trim number_then_text)).
      trim line \<noteq> [] \<longrightarrow> \<not> progress_record json_parse line"
    using number_facts unfolding number_lines by simp
  have "trim ''hello'' \<noteq> []" by code_simp
  with number_facts(3) have number_some: "\<exists>line \<in> set (split_nl (trim number_then_text)).
      trim line \<noteq> [] \<and> unreadable json_parse line"
    unfolding number_lines by simp
  from raw_line_fallback [of number_then_text json_parse] number_no_progress number_some
  have "on_stdout json_parse number_then_text =
      ([ChannelAppend number_then_text,
        ProgressReport (Raw (last (split_nl (trim number_then_text))))], None)"
    by blast
  then have first: "on_stdout json_parse number_then_text =
      ([ChannelAppend number_then_text, ProgressReport (Raw ''hello'')], None)"
    by (simp add: number_lines)
  have text_lines: "split_nl (trim text_chunk) =
      [''Analyzing imports...'', ''  3 of 7 files done'', ''still working'']"
    by code_simp
  have text_facts: "\<not> progress_record json_parse ''Analyzing imports...''"
    "\<not> progress_record json_parse ''  3 of 7 files done''"
    "\<not> progress_record json_parse ''still working''"
    "unreadable json_parse ''Analyzing imports...''"
    by code_simp+
  have text_no_progress: "\<forall>line \<in> set (split_nl (trim text_chunk)).
      trim line \<noteq> [] \<longrightarrow> \<not> progress_record json_parse line"
    using text_facts unfolding text_lines by simp
  have "trim ''Analyzing imports...'' \<noteq> []" by code_simp
  with text_facts(4) have text_some: "\<exists>line \<in> set (split_nl (trim text_chunk)).
      trim line \<noteq> [] \<and> unreadable json_parse line"
    unfolding text_lines by simp
  have chunk: "text_chunk = (''Analyzing imports...'' @ [NL] @ ''  3 of 7 files done'' @ [NL])
      @ ''still working'' @ [NL]"
    by (simp add: text_chunk_def)
  have shape: "(''Analyzing imports...'' @ [NL] @ ''  3 of 7 files done'' @ [NL]) = []
      \<or> last (''Analyzing imports...'' @ [NL] @ ''  3 of 7 files done'' @ [NL]) = NL"
    "''still working'' \<noteq> []" "NL \<notin> set ''still working''"
    "\<not> is_space (hd ''still working'')" "\<not> is_space (last ''still working'')"
    "[NL] = [] \<or> hd [NL] = NL" "\<forall>c \<in> set [NL]. is_space c"
    by (simp_all add: is_space_def)
  from raw_line_fallback [of text_chunk json_parse
      "''Analyzing imports...'' @ [NL] @ ''  3 of 7 files done'' @ [NL]" "''still working''" "[NL]"]
    text_no_progress text_some chunk shape
  have second: "last_nonempty_line text_chunk = Some ''still working''
      \<and> on_stdout json_parse text_chunk =
        ([ChannelAppend text_chunk, ProgressReport (Raw ''still working'')], None)"
    by blast
  have values_lines: "split_nl (trim values_chunk) = [''7'', ''true'']"
    by code_simp
  have values_facts: "\<not> progress_record json_parse ''7''" "\<not> progress_record json_parse ''true''"
    "\<not> unreadable json_parse ''7''" "\<not> unreadable json_parse ''true''"
    by code_simp+
  have values_all: "\<forall>line \<in> set (split_nl (trim values_chunk)).
      trim line \<noteq> [] \<longrightarrow> \<not> progress_record json_parse line \<and> \<not> unreadable json_parse line"
    using values_facts unfolding values_lines by simp
  from raw_line_fallback [of values_chunk json_parse] values_all
  have third: "on_stdout json_parse values_chunk = ([ChannelAppend values_chunk], None)"
    by blast
  from number_facts first text_facts(4) chunk second values_facts(3,4) third
  show ?thesis by blast
qed

text \<open>
  Claim C9 as stated fails twice. A chunk with no record in it can be JSON text all the
  same: the one line \<^verbatim>\<open>42\<close> parses (to a number, not to a record), nothing is thrown, and
  the handler yields no event where the claim promises one \<open>Raw\<close> event. And the message
  is cut out of the trimmed chunk: for a chunk whose last non-empty line ends in two
  spaces, the message is that line without them.
\<close>

theorem raw_line_fallback_counterexample:
  "json_parse ''42'' = Some (JNumber 42)
   \<and> on_stdout json_parse ''42'' = ([ChannelAppend ''42''], None)
   \<and> last_nonempty_line padded_chunk = Some ''still working  ''
   \<and> on_stdout json_parse padded_chunk =
       ([ChannelAppend padded_chunk, ProgressReport (Raw ''still working'')], None)"
  by code_simp

section \<open>The provisioner\<close>

lemma spawned_runCommand: "spawned (fst (runCommand m pf cmd args w)) = [(cmd, args)]"
  by (simp add: runCommand_def split: prod.splits)

lemma world_runCommand: "fst (snd (runCommand m pf cmd args w)) = snd (exec m cmd args w)"
  by (simp add: runCommand_def split: prod.splits)

lemma spawned_setup_failed: "spawned (setup_failed cfg err) = []"
  by (simp add: setup_failed_def)

lemma spawned_install:
  "spawned (fst (install_dependencies m pf cfg w)) = [(pipExecutable pf, pip_args pf)]"
  using spawned_runCommand [of m pf "pipExecutable pf" "pip_args pf" w]
  by (auto simp: install_dependencies_def spawned_append spawned_setup_failed
      split: prod.splits option.splits settlement.splits)

lemma world_install:
  "fst (snd (install_dependencies m pf cfg w)) = snd (exec m (pipExecutable pf) (pip_args pf) w)"
  using world_runCommand [of m pf "pipExecutable pf" "pip_args pf" w]
  by (auto simp: install_dependencies_def split: prod.splits option.splits settlement.splits)

lemma spawned_setup_existing:
  "stat m w (pythonExecutable pf) \<Longrightarrow>
   spawned (fst (setupPythonEnvironment m pf cfg w)) = [(pipExecutable pf, pip_args pf)]"
  using spawned_install [of m pf cfg w]
  by (cases "install_dependencies m pf cfg w") (simp add: setupPythonEnvironment_def)

lemma world_setup_existing:
  "stat m w (pythonExecutable pf) \<Longrightarrow>
   fst (snd (setupPythonEnvironment m pf cfg w)) = snd (exec m (pipExecutable pf) (pip_args pf) w)"
  using world_install [of m pf cfg w]
  by (cases "install_dependencies m pf cfg w") (simp add: setupPythonEnvironment_def)

lemma setup_repeatedly_Suc:
  "fst (setup_repeatedly m pf cfg (Suc n) w) =
     fst (setupPythonEnvironment m pf cfg w)
       @ fst (setup_repeatedly m pf cfg n (fst (snd (setupPythonEnvironment m pf cfg w))))"
  by (simp split: prod.splits)

lemma spawned_repeatedly_existing:
  assumes keeps: "\<forall>w'. stat m w' (pythonExecutable pf) \<longrightarrow>
      stat m (snd (exec m (pipExecutable pf) (pip_args pf) w')) (pythonExecutable pf)"
  shows "stat m w (pythonExecutable pf) \<Longrightarrow>
    spawned (fst (setup_repeatedly m pf cfg n w)) = replicate n (pipExecutable pf, pip_args pf)"
proof (induction n arbitrary: w)
  case 0
  then show ?case by simp
next
  case (Suc n)
  from Suc.prems keeps have
    "stat m (fst (snd (setupPythonEnvironment m pf cfg w))) (pythonExecutable pf)"
    by (simp add: world_setup_existing)
  then have "spawned (fst (setup_repeatedly m pf cfg n (fst (snd (setupPythonEnvironment m pf cfg w)))))
      = replicate n (pipExecutable pf, pip_args pf)"
    by (rule Suc.IH)
  with Suc.prems show ?case
    by (simp only: setup_repeatedly_Suc spawned_append spawned_setup_existing) simp
qed

lemma pip_is_not_venv: "(pipExecutable pf, pip_args pf) \<noteq> (pythonCommand cfg, venv_args)"
  by (simp add: pip_args_def venv_args_def)

text \<open>
  Claim C7. A call of the provisioner that finds the environment's interpreter in place
  runs the dependency install and nothing else. So when the environment exists and the
  install leaves its interpreter in place, any number \<open>n\<close> of successive calls (two in
  particular) runs the creation command zero times and the dependency install \<open>n\<close>
  times, once in every call, whether the installs succeed or fail.
\<close>

theorem provisioner_idempotent:
  "(stat m w (pythonExecutable pf) \<longrightarrow>
      spawned (fst (setupPythonEnvironment m pf cfg w)) = [(pipExecutable pf, pip_args pf)])
   \<and> (stat m w (pythonExecutable pf)
       \<and> (\<forall>w'. stat m w' (pythonExecutable pf) \<longrightarrow>
             stat m (snd (exec m (pipExecutable pf) (pip_args pf) w')) (pythonExecutable pf))
      \<longrightarrow> spawned (fst (setup_repeatedly m pf cfg n w)) = replicate n (pipExecutable pf, pip_args pf)
        \<and> count_list (spawned (fst (setup_repeatedly m pf cfg n w))) (pythonCommand cfg, venv_args) = 0
        \<and> count_list (spawned (fst (setup_repeatedly m pf cfg n w))) (pipExecutable pf, pip_args pf) = n)"
proof -
  have many: "spawned (fst (setup_repeatedly m pf cfg n w)) = replicate n (pipExecutable pf, pip_args pf)"
    if "stat m w (pythonExecutable pf)"
      and "\<forall>w'. stat m w' (pythonExecutable pf) \<longrightarrow>
             stat m (snd (exec m (pipExecutable pf) (pip_args pf) w')) (pythonExecutable pf)"
    using spawned_repeatedly_existing [OF that(2) that(1)] .
  have none: "count_list (replicate n (pipExecutable pf, pip_args pf)) (pythonCommand cfg, venv_args) = 0"
    using pip_is_not_venv [of pf cfg] by (induction n) auto
  have every: "count_list (replicate n (pipExecutable pf, pip_args pf)) (pipExecutable pf, pip_args pf) = n"
    by (induction n) auto
  show ?thesis
    using many none every by (auto simp: spawned_setup_existing)
qed

theorem provisioner_idempotent_witness:
  "stat example_machine [pythonExecutable example_platform] (pythonExecutable example_platform)
   \<and> spawned (fst (setup_repeatedly example_machine example_platform example_configuration 2
         [pythonExecutable example_platform]))
       = [(''/ext/agent/.venv/bin/pip'', [''install'', ''-r'', ''/ext/agent/requirements.txt'']),
          (''/ext/agent/.venv/bin/pip'', [''install'', ''-r'', ''/ext/agent/requirements.txt''])]
   \<and> count_list (spawned (fst (setup_repeatedly example_machine example_platform
         example_configuration 2 [pythonExecutable example_platform])))
         (pythonCommand example_configuration, venv_args) = 0"
proof -
  have present:
    "stat example_machine [pythonExecutable example_platform] (pythonExecutable example_platform)"
    by (simp add: example_machine_def)
  have keeps: "\<forall>w'. stat example_machine w' (pythonExecutable example_platform) \<longrightarrow>
      stat example_machine
        (snd (exec example_machine (pipExecutable example_platform) (pip_args example_platform) w'))
        (pythonExecutable example_platform)"
    by (simp add: example_machine_def pip_args_def venv_args_def)
  have pip: "pipExecutable example_platform = ''/ext/agent/.venv/bin/pip''"
    "pip_args example_platform = [''install'', ''-r'', ''/ext/agent/requirements.txt'']"
    by code_simp+
  note claim = provisioner_idempotent [of example_machine "[pythonExecutable example_platform]"
      example_platform example_configuration 2]
  from claim present keeps have
    "spawned (fst (setup_repeatedly example_machine example_platform example_configuration 2
         [pythonExecutable example_platform]))
       = replicate 2 (pipExecutable example_platform, pip_args example_platform)
     \<and> count_list (spawned (fst (setup_repeatedly example_machine example_platform
         example_configuration 2 [pythonExecutable example_platform])))
         (pythonCommand example_configuration, venv_args) = 0"
    by blast
  moreover have "replicate 2 (pipExecutable example_platform, pip_args example_platform)
      = [(''/ext/agent/.venv/bin/pip'', [''install'', ''-r'', ''/ext/agent/requirements.txt'']),
         (''/ext/agent/.venv/bin/pip'', [''install'', ''-r'', ''/ext/agent/requirements.txt''])]"
    unfolding pip by (simp add: numeral_2_eq_2)
  ultimately show ?thesis using present by metis
qed

lemma resolved_runCommand:
  "snd (snd (runCommand m pf cmd args w)) = Some Resolved
     \<longleftrightarrow> fst (exec m cmd args w) = Closed (Some 0)"
  by (simp add: runCommand_def split: prod.splits command_end.splits)

text \<open>The commands one call of the provisioner runs.\<close>

lemma spawned_setup:
  "spawned (fst (setupPythonEnvironment m pf cfg w)) =
     (if stat m w (pythonExecutable pf) then [(pipExecutable pf, pip_args pf)]
      else if fst (exec m (pythonCommand cfg) venv_args w) = Closed (Some 0)
        then [(pythonCommand cfg, venv_args), (pipExecutable pf, pip_args pf)]
      else [(pythonCommand cfg, venv_args)])"
proof (cases "stat m w (pythonExecutable pf)")
  case True
  then show ?thesis by (simp add: spawned_setup_existing)
next
  case False
  obtain effs w' r where run: "runCommand m pf (pythonCommand cfg) venv_args w = (effs, w', r)"
    by (cases "runCommand m pf (pythonCommand cfg) venv_args w") auto
  then have effs: "spawned effs = [(pythonCommand cfg, venv_args)]"
    using spawned_runCommand [of m pf "pythonCommand cfg" venv_args w] by simp
  from run have code:
    "r = Some Resolved \<longleftrightarrow> fst (exec m (pythonCommand cfg) venv_args w) = Closed (Some 0)"
    using resolved_runCommand [of m pf "pythonCommand cfg" venv_args w] by simp
  show ?thesis
  proof (cases r)
    case None
    with False run effs code show ?thesis
      by (simp add: setupPythonEnvironment_def)
  next
    case (Some settled)
    show ?thesis
    proof (cases settled)
      case Resolved
      obtain effs' w'' r' where inst: "install_dependencies m pf cfg w' = (effs', w'', r')"
        by (cases "install_dependencies m pf cfg w'") auto
      then have "spawned effs' = [(pipExecutable pf, pip_args pf)]"
        using spawned_install [of m pf cfg w'] by simp
      with False run Some Resolved inst effs code show ?thesis
        by (simp add: setupPythonEnvironment_def spawned_append)
    next
      case (Rejected err)
      with False run Some effs code show ?thesis
        by (simp add: setupPythonEnvironment_def spawned_append spawned_setup_failed)
    qed
  qed
qed

lemma spawned_setup_not_empty:
  "spawned (fst (setupPythonEnvironment m pf cfg w)) \<noteq> []"
  by (simp add: spawned_setup)

lemma spawned_setup_commands:
  "set (spawned (fst (setupPythonEnvironment m pf cfg w)))
     \<subseteq> {(pythonCommand cfg, venv_args), (pipExecutable pf, pip_args pf)}"
  by (simp add: spawned_setup)

lemma world_setup_created:
  assumes "\<not> stat m w (pythonExecutable pf)"
    and "fst (exec m (pythonCommand cfg) venv_args w) = Closed (Some 0)"
  shows "fst (snd (setupPythonEnvironment m pf cfg w)) =
    snd (exec m (pipExecutable pf) (pip_args pf) (snd (exec m (pythonCommand cfg) venv_args w)))"
proof -
  obtain effs w' r where run: "runCommand m pf (pythonCommand cfg) venv_args w = (effs, w', r)"
    by (cases "runCommand m pf (pythonCommand cfg) venv_args w") auto
  with assms(2) have r: "r = Some Resolved"
    using resolved_runCommand [of m pf "pythonCommand cfg" venv_args w] by simp
  from run have w': "w' = snd (exec m (pythonCommand cfg) venv_args w)"
    using world_runCommand [of m pf "pythonCommand cfg" venv_args w] by simp
  obtain effs' w'' r' where inst: "install_dependencies m pf cfg w' = (effs', w'', r')"
    by (cases "install_dependencies m pf cfg w'") auto
  then have "w'' = snd (exec m (pipExecutable pf) (pip_args pf) w')"
    using world_install [of m pf cfg w'] by simp
  with assms(1) run r inst w' show ?thesis
    by (simp add: setupPythonEnvironment_def)
qed

text \<open>
  From a state without the environment: when the creation command succeeds and puts the
  interpreter in place, and the install leaves it there, any number of successive calls
  runs the creation command once at most.
\<close>

lemma creation_runs_at_most_once:
  assumes keeps: "\<forall>w'. stat m w' (pythonExecutable pf) \<longrightarrow>
      stat m (snd (exec m (pipExecutable pf) (pip_args pf) w')) (pythonExecutable pf)"
    and creates: "fst (exec m (pythonCommand cfg) venv_args w) = Closed (Some 0)"
      "stat m (snd (exec m (pythonCommand cfg) venv_args w)) (pythonExecutable pf)"
  shows "count_list (spawned (fst (setup_repeatedly m pf cfg n w))) (pythonCommand cfg, venv_args) \<le> 1"
proof (cases "stat m w (pythonExecutable pf)")
  case True
  have "count_list (replicate n (pipExecutable pf, pip_args pf)) (pythonCommand cfg, venv_args) = 0"
    using pip_is_not_venv [of pf cfg] by (induction n) auto
  with True keeps show ?thesis by (simp add: spawned_repeatedly_existing)
next
  case False
  show ?thesis
  proof (cases n)
    case 0
    then show ?thesis by simp
  next
    case (Suc k)
    let ?w = "fst (snd (setupPythonEnvironment m pf cfg w))"
    from False creates keeps have "stat m ?w (pythonExecutable pf)"
      by (simp add: world_setup_created)
    with keeps have rest: "spawned (fst (setup_repeatedly m pf cfg k ?w))
        = replicate k (pipExecutable pf, pip_args pf)"
      by (simp add: spawned_repeatedly_existing)
    have none: "count_list (replicate k (pipExecutable pf, pip_args pf)) (pythonCommand cfg, venv_args) = 0"
      using pip_is_not_venv [of pf cfg] by (induction k) auto
    from False creates(1) have first: "spawned (fst (setupPythonEnvironment m pf cfg w))
        = [(pythonCommand cfg, venv_args), (pipExecutable pf, pip_args pf)]"
      by (simp add: spawned_setup)
    show ?thesis
      unfolding Suc setup_repeatedly_Suc spawned_append first rest
      using none pip_is_not_venv [of pf cfg] by simp
  qed
qed

section \<open>Missing credentials\<close>

lemma spawned_banner: "spawned (banner projectPath) = []"
  by (simp add: banner_def)

lemma spawned_run_failed: "spawned (run_failed err) = []"
  by (simp add: run_failed_def)

lemma spawned_credentials_missing: "spawned credentials_missing = []"
  by (simp add: credentials_missing_def)

lemma runAgent_without_credentials:
  assumes "truthy (ibmApiKey cfg) = None \<or> truthy (ibmProjectId cfg) = None"
  shows "runAgent m parse pf cfg projectPath formData events w =
    (case setupPythonEnvironment m pf cfg w of
       (effs, w', None) \<Rightarrow> (effs, w', None)
     | (effs, w', Some (Inl err)) \<Rightarrow> (effs @ run_failed err, w', Some (Rejected err))
     | (effs, w', Some (Inr python)) \<Rightarrow>
         (effs @ banner projectPath @ credentials_missing @ run_failed credentials_message,
          w', Some (Rejected credentials_message)))"
  using assms by (auto simp: runAgent_def split: prod.splits sum.splits option.splits)

text \<open>
  Claim C1, as amended. When the API key or the project identifier is missing (undefined
  or empty), the agent process is never spawned and the promise of \<^verbatim>\<open>runAgent\<close> is never
  resolved. The credentials are checked after provisioning: the effects of the
  provisioner come first and its commands, of which there is at least one, are the only
  processes spawned. When the provisioner returns the interpreter, the promise is
  rejected with the credentials message; when the provisioner throws (a command of its
  has closed with another exit code than 0), the promise is rejected with that error;
  and when the provisioner never returns (a command of its never closes, as one that
  cannot be started), the promise stays pending.
\<close>

theorem credentials_checked_after_provisioning:
  "truthy (ibmApiKey cfg) = None \<or> truthy (ibmProjectId cfg) = None \<longrightarrow>
     spawned (fst (runAgent m parse pf cfg projectPath formData events w))
       = spawned (fst (setupPythonEnvironment m pf cfg w))
     \<and> spawned (fst (runAgent m parse pf cfg projectPath formData events w)) \<noteq> []
     \<and> (python, agent_args pf projectPath formData)
         \<notin> set (spawned (fst (runAgent m parse pf cfg projectPath formData events w)))
     \<and> prefix (fst (setupPythonEnvironment m pf cfg w))
         (fst (runAgent m parse pf cfg projectPath formData events w))
     \<and> fst (snd (runAgent m parse pf cfg projectPath formData events w))
         = fst (snd (setupPythonEnvironment m pf cfg w))
     \<and> snd (snd (runAgent m parse pf cfg projectPath formData events w))
         = (case snd (snd (setupPythonEnvironment m pf cfg w)) of
              None \<Rightarrow> None
            | Some (Inl err) \<Rightarrow> Some (Rejected err)
            | Some (Inr interpreter) \<Rightarrow> Some (Rejected credentials_message))
     \<and> snd (snd (runAgent m parse pf cfg projectPath formData events w)) \<noteq> Some Resolved"
proof
  assume missing: "truthy (ibmApiKey cfg) = None \<or> truthy (ibmProjectId cfg) = None"
  obtain effs w' r where prov: "setupPythonEnvironment m pf cfg w = (effs, w', r)"
    by (cases "setupPythonEnvironment m pf cfg w") auto
  have run: "runAgent m parse pf cfg projectPath formData events w =
      (case r of
         None \<Rightarrow> (effs, w', None)
       | Some (Inl err) \<Rightarrow> (effs @ run_failed err, w', Some (Rejected err))
       | Some (Inr interpreter) \<Rightarrow>
           (effs @ banner projectPath @ credentials_missing @ run_failed credentials_message,
            w', Some (Rejected credentials_message)))"
    using runAgent_without_credentials [OF missing, of m parse pf projectPath formData events w]
    by (simp add: prov)
  have same: "spawned (fst (runAgent m parse pf cfg projectPath formData events w)) = spawned effs"
    by (simp add: run spawned_append spawned_banner spawned_run_failed
        spawned_credentials_missing split: option.splits sum.splits)
  have commands: "set (spawned effs)
      \<subseteq> {(pythonCommand cfg, venv_args), (pipExecutable pf, pip_args pf)}"
    using spawned_setup_commands [of m pf cfg w] by (simp add: prov)
  have "(python, agent_args pf projectPath formData) \<notin>
      {(pythonCommand cfg, venv_args), (pipExecutable pf, pip_args pf)}"
    by (simp add: agent_args_def venv_args_def pip_args_def)
  with commands have no_agent: "(python, agent_args pf projectPath formData) \<notin> set (spawned effs)"
    by blast
  have not_empty: "spawned effs \<noteq> []"
    using spawned_setup_not_empty [of m pf cfg w] by (simp add: prov)
  have rest: "prefix effs (fst (runAgent m parse pf cfg projectPath formData events w))"
    "fst (snd (runAgent m parse pf cfg projectPath formData events w)) = w'"
    "snd (snd (runAgent m parse pf cfg projectPath formData events w))
       = (case r of
            None \<Rightarrow> None
          | Some (Inl err) \<Rightarrow> Some (Rejected err)
          | Some (Inr interpreter) \<Rightarrow> Some (Rejected credentials_message))"
    "snd (snd (runAgent m parse pf cfg projectPath formData events w)) \<noteq> Some Resolved"
    by (simp_all add: run split: option.splits sum.splits)
  from same no_agent not_empty rest show
    "spawned (fst (runAgent m parse pf cfg projectPath formData events w))
       = spawned (fst (setupPythonEnvironment m pf cfg w))
     \<and> spawned (fst (runAgent m parse pf cfg projectPath formData events w)) \<noteq> []
     \<and> (python, agent_args pf projectPath formData)
         \<notin> set (spawned (fst (runAgent m parse pf cfg projectPath formData events w)))
     \<and> prefix (fst (setupPythonEnvironment m pf cfg w))
         (fst (runAgent m parse pf cfg projectPath formData events w))
     \<and> fst (snd (runAgent m parse pf cfg projectPath formData events w))
         = fst (snd (setupPythonEnvironment m pf cfg w))
     \<and> snd (snd (runAgent m parse pf cfg projectPath formData events w))
         = (case snd (snd (setupPythonEnvironment m pf cfg w)) of
              None \<Rightarrow> None
            | Some (Inl err) \<Rightarrow> Some (Rejected err)
            | Some (Inr interpreter) \<Rightarrow> Some (Rejected credentials_message))
     \<and> snd (snd (runAgent m parse pf cfg projectPath formData events w)) \<noteq> Some Resolved"
    by (simp add: prov)
qed

theorem credentials_checked_after_provisioning_witness:
  "truthy (ibmProjectId no_project_id) = None
   \<and> spawned (fst (runAgent example_machine json_parse example_platform no_project_id
         ''/project'' example_form [Close (Some 0)] [pythonExecutable example_platform]))
       = [(''/ext/agent/.venv/bin/pip'', [''install'', ''-r'', ''/ext/agent/requirements.txt''])]
   \<and> snd (snd (runAgent example_machine json_parse example_platform no_project_id
         ''/project'' example_form [Close (Some 0)] [pythonExecutable example_platform]))
       = Some (Rejected credentials_message)
   \<and> truthy (ibmApiKey no_api_key) = None
   \<and> spawned (fst (runAgent no_interpreter_machine json_parse example_platform no_api_key
         ''/project'' example_form [Close (Some 0)] []))
       = [(''python'', [''-m'', ''venv'', ''.venv''])]
   \<and> snd (snd (runAgent no_interpreter_machine json_parse example_platform no_api_key
         ''/project'' example_form [Close (Some 0)] []))
       = None"
proof -
  have missing: "truthy (ibmProjectId no_project_id) = None" "truthy (ibmApiKey no_api_key) = None"
    by code_simp+
  have commands: "spawned (fst (setupPythonEnvironment example_machine example_platform
      no_project_id [pythonExecutable example_platform]))
    = [(''/ext/agent/.venv/bin/pip'', [''install'', ''-r'', ''/ext/agent/requirements.txt''])]"
    by code_simp
  have ready: "snd (snd (setupPythonEnvironment example_machine example_platform
      no_project_id [pythonExecutable example_platform]))
    = Some (Inr ''/ext/agent/.venv/bin/python'')"
    by code_simp
  have stuck_commands: "spawned (fst (setupPythonEnvironment no_interpreter_machine
      example_platform no_api_key [])) = [(''python'', [''-m'', ''venv'', ''.venv''])]"
    by code_simp
  have stuck: "snd (snd (setupPythonEnvironment no_interpreter_machine example_platform
      no_api_key [])) = None"
    by code_simp
  from missing(1) credentials_checked_after_provisioning [of no_project_id example_machine
      json_parse example_platform "''/project''" example_form "[Close (Some 0)]"
      "[pythonExecutable example_platform]"]
  have "spawned (fst (runAgent example_machine json_parse example_platform no_project_id
         ''/project'' example_form [Close (Some 0)] [pythonExecutable example_platform]))
       = spawned (fst (setupPythonEnvironment example_machine example_platform
           no_project_id [pythonExecutable example_platform]))
     \<and> snd (snd (runAgent example_machine json_parse example_platform no_project_id
         ''/project'' example_form [Close (Some 0)] [pythonExecutable example_platform]))
       = (case snd (snd (setupPythonEnvironment example_machine example_platform
           no_project_id [pythonExecutable example_platform])) of
            None \<Rightarrow> None
          | Some (Inl err) \<Rightarrow> Some (Rejected err)
          | Some (Inr interpreter) \<Rightarrow> Some (Rejected credentials_message))"
    by blast
  then have rejected: "spawned (fst (runAgent example_machine json_parse example_platform
         no_project_id ''/project'' example_form [Close (Some 0)]
         [pythonExecutable example_platform]))
       = [(''/ext/agent/.venv/bin/pip'', [''install'', ''-r'', ''/ext/agent/requirements.txt''])]
     \<and> snd (snd (runAgent example_machine json_parse example_platform no_project_id
         ''/project'' example_form [Close (Some 0)] [pythonExecutable example_platform]))
       = Some (Rejected credentials_message)"
    by (simp add: commands ready)
  from missing(2) credentials_checked_after_provisioning [of no_api_key no_interpreter_machine
      json_parse example_platform "''/project''" example_form "[Close (Some 0)]" "[]"]
  have "spawned (fst (runAgent no_interpreter_machine json_parse example_platform no_api_key
         ''/project'' example_form [Close (Some 0)] []))
       = spawned (fst (setupPythonEnvironment no_interpreter_machine example_platform
           no_api_key []))
     \<and> snd (snd (runAgent no_interpreter_machine json_parse example_platform no_api_key
         ''/project'' example_form [Close (Some 0)] []))
       = (case snd (snd (setupPythonEnvironment no_interpreter_machine example_platform
           no_api_key [])) of
            None \<Rightarrow> None
          | Some (Inl err) \<Rightarrow> Some (Rejected err)
          | Some (Inr interpreter) \<Rightarrow> Some (Rejected credentials_message))"
    by blast
  then have pending: "spawned (fst (runAgent no_interpreter_machine json_parse example_platform
         no_api_key ''/project'' example_form [Close (Some 0)] []))
       = [(''python'', [''-m'', ''venv'', ''.venv''])]
     \<and> snd (snd (runAgent no_interpreter_machine json_parse example_platform no_api_key
         ''/project'' example_form [Close (Some 0)] []))
       = None"
    by (simp add: stuck_commands stuck)
  from missing rejected pending show ?thesis by blast
qed

text \<open>
  Claim C1 as stated (failure before any process is spawned and before any provisioning
  side effect) fails: with an empty API key and no environment yet, the invocation
  creates the environment and installs the dependencies, and only then is rejected with
  the credentials message.
\<close>

theorem credentials_counterexample:
  "truthy (ibmApiKey no_api_key) = None
   \<and> spawned (fst (runAgent example_machine json_parse example_platform no_api_key
         ''/project'' example_form [] []))
       = [(''python'', [''-m'', ''venv'', ''.venv'']),
          (''/ext/agent/.venv/bin/pip'', [''install'', ''-r'', ''/ext/agent/requirements.txt''])]
   \<and> snd (snd (runAgent example_machine json_parse example_platform no_api_key
         ''/project'' example_form [] []))
       = Some (Rejected credentials_message)"
  by code_simp

section \<open>The diagnosis of a provisioning failure\<close>

lemma includes_strI: "includes_str (a @ sub @ b) sub"
proof (induction a)
  case Nil
  show ?case
  proof (cases "sub @ b")
    case Nil
    then show ?thesis by simp
  next
    case (Cons c cs)
    have "prefix sub (sub @ b)" by simp
    with Cons show ?thesis by simp
  qed
next
  case (Cons c a)
  then show ?case by simp
qed

lemma pip_failure_mentions_venv:
  "includes_str (command_failed code (pipExecutable pf) (pip_args pf)) ''venv''"
proof -
  have "\<exists>a b. command_failed code (pipExecutable pf) (pip_args pf) = a @ ''venv'' @ b"
  proof (cases "isWindows pf")
    case True
    then have "command_failed code (pipExecutable pf) (pip_args pf) =
        (''Command failed with code '' @ show_code code @ '': '' @ agentPath pf @ [CHR 0x5C] @ ''.'')
          @ ''venv'' @ ([CHR 0x5C] @ ''Scripts'' @ [CHR 0x5C] @ ''pip.exe'' @ '' ''
          @ join_with '' '' (pip_args pf))"
      by (simp add: command_failed_def pipExecutable_def venvPath_def path_join_def)
    then show ?thesis by blast
  next
    case False
    then have "command_failed code (pipExecutable pf) (pip_args pf) =
        (''Command failed with code '' @ show_code code @ '': '' @ agentPath pf @ ''/.'')
          @ ''venv'' @ (''/bin/pip '' @ join_with '' '' (pip_args pf))"
      by (simp add: command_failed_def pipExecutable_def venvPath_def path_join_def)
    then show ?thesis by blast
  qed
  then show ?thesis using includes_strI by metis
qed

lemma creation_failure_mentions_venv:
  "includes_str (command_failed code cmd venv_args) ''venv''"
proof -
  have "command_failed code cmd venv_args =
      (''Command failed with code '' @ show_code code @ '': '' @ cmd @ '' -m '')
        @ ''venv'' @ '' .venv''"
    by (simp add: command_failed_def venv_args_def)
  then show ?thesis using includes_strI by metis
qed

text \<open>
  Whatever the platform, the settings and the exit code: the message of a failed
  dependency install names the installer inside \<^verbatim>\<open>.venv\<close>, so the test for \<^verbatim>\<open>venv\<close> catches
  it (when the test for \<^verbatim>\<open>python\<close> has not), and the diagnosis that names
  \<^verbatim>\<open>requirements.txt\<close> is never the one shown.
\<close>

lemma dependency_diagnosis_unreachable:
  \<open>setup_user_message cfg (command_failed code (pipExecutable pf) (pip_args pf)) =
     (if includes_str (command_failed code (pipExecutable pf) (pip_args pf)) ''python''
      then ''Python not found. Please check your Python path in settings. Current path: "''
             @ pythonCommand cfg @ ''"''
      else ''Failed to create virtual environment. Ensure Python has venv module installed.'')\<close>
  using pip_failure_mentions_venv [of code pf] by (simp add: setup_user_message_def)

text \<open>A failed creation of the environment is diagnosed as one of the first two causes.\<close>

lemma creation_diagnosis:
  \<open>setup_user_message cfg (command_failed code (pythonCommand cfg) venv_args) =
     (if includes_str (command_failed code (pythonCommand cfg) venv_args) ''python''
      then ''Python not found. Please check your Python path in settings. Current path: "''
             @ pythonCommand cfg @ ''"''
      else ''Failed to create virtual environment. Ensure Python has venv module installed.'')\<close>
  using creation_failure_mentions_venv [of code "pythonCommand cfg"]
  by (simp add: setup_user_message_def)

text \<open>
  Claim C5 says that a failed dependency install is diagnosed as a missing or invalid
  manifest and never attributed to the creation of the environment. The code run on such
  a failure (the environment in place, the installer exits with code 1) shows the message
  about the creation of the virtual environment, and throws the installer's error.
\<close>

theorem dependency_failure_diagnosis:
  "setupPythonEnvironment failing_pip_machine example_platform example_configuration
     [pythonExecutable example_platform] =
   ([ProgressReport (Status ''Setting up Python environment...''),
     ProgressReport (Status ''Installing dependencies...''),
     Spawn ''/ext/agent/.venv/bin/pip'' [''install'', ''-r'', ''/ext/agent/requirements.txt'']
       \<lparr>env = None, cwd = ''/ext/agent''\<rparr>,
     ShowErrorMessage
       ''Failed to create virtual environment. Ensure Python has venv module installed.''],
    [''/ext/agent/.venv/bin/python''],
    Some (Inl ''Command failed with code 1: /ext/agent/.venv/bin/pip install -r /ext/agent/requirements.txt''))"
  by code_simp

end
